theory Spec2Isabelle
  imports Complex_Main
begin

section \<open>Python values and library functions used by \<open>multi_image.py\<close>\<close>

text \<open>
  The module \<open>threestudio/data/multi_image.py\<close> is embedded shallowly. Python integers are
  \<open>int\<close>, floats and tensor entries are idealised as \<open>real\<close> (no rounding, no NaN, no
  infinity), lists are lists, and every exception the module can raise is a value of
  \<open>py_error\<close> returned on the left of a sum.
\<close>

datatype py_error =
    AssertionError
  | IndexError
  | ValueError
  | ZeroDivisionError
  | RuntimeError
  | TypeError
  | FileNotFoundError

text \<open>
  The subscription \<open>xs[i]\<close> of a Python list: an index from \<open>-len(xs)\<close> to \<open>-1\<close> addresses
  the list from its end, and an index outside \<open>-len(xs) .. len(xs) - 1\<close> raises.
\<close>

definition py_index :: "'a list \<Rightarrow> int \<Rightarrow> py_error + 'a" where
  "py_index xs i =
     (if 0 \<le> i \<and> i < int (length xs) then Inr (xs ! nat i)
      else if i < 0 \<and> - int (length xs) \<le> i then Inr (xs ! nat (int (length xs) + i))
      else Inl IndexError)"

text \<open>Python \<open>min(xs)\<close>: \<open>ValueError\<close> on the empty list.\<close>

definition py_min :: "real list \<Rightarrow> py_error + real" where
  "py_min xs = (case xs of [] \<Rightarrow> Inl ValueError | x # rest \<Rightarrow> Inr (fold min rest x))"

text \<open>
  \<open>bisect.bisect_right(a, x)\<close> of the standard library:
  \<^verbatim>\<open>
    lo, hi = 0, len(a)
    while lo < hi:
        mid = (lo + hi) // 2
        if x < a[mid]: hi = mid
        else: lo = mid + 1
    return lo
  \<close>
\<close>

function bisect_loop :: "int list \<Rightarrow> int \<Rightarrow> nat \<Rightarrow> nat \<Rightarrow> nat" where
  "bisect_loop a x lo hi =
     (if lo < hi then
        (let mid = (lo + hi) div 2
         in if x < a ! mid then bisect_loop a x lo mid
            else bisect_loop a x (mid + 1) hi)
      else lo)"
  by pat_completeness auto
termination
  by (relation "measure (\<lambda>(a, x, lo, hi). hi - lo)") auto

declare bisect_loop.simps [simp del]

definition bisect_right :: "int list \<Rightarrow> int \<Rightarrow> nat" where
  "bisect_right a x = bisect_loop a x 0 (length a)"

text \<open>
  \<open>os.path.join(a, b)\<close> and \<open>os.path.dirname(p)\<close> of \<open>posixpath\<close>, and
  \<open>str.startswith\<close> and \<open>str.replace\<close>. The replacement goes through the string
  from the left and replaces every occurrence that does not overlap an earlier one; the
  module replaces the suffix \<open>_rgba.png\<close> only, so an empty pattern is left alone here.
\<close>

definition startswith :: "string \<Rightarrow> string \<Rightarrow> bool" where
  "startswith s pre = (take (length pre) s = pre)"

definition os_path_join :: "string \<Rightarrow> string \<Rightarrow> string" where
  "os_path_join a b =
     (if startswith b ''/'' then b
      else if a = [] \<or> last a = CHR ''/'' then a @ b
      else a @ ''/'' @ b)"

definition os_path_dirname :: "string \<Rightarrow> string" where
  "os_path_dirname p =
     (let head = rev (dropWhile (\<lambda>c. c \<noteq> CHR ''/'') (rev p))
      in if head \<noteq> [] \<and> filter (\<lambda>c. c \<noteq> CHR ''/'') head \<noteq> []
         then rev (dropWhile (\<lambda>c. c = CHR ''/'') (rev head))
         else head)"

function str_replace :: "string \<Rightarrow> string \<Rightarrow> string \<Rightarrow> string" where
  "str_replace old new s =
     (if s = [] \<or> old = [] then s
      else if startswith s old then new @ str_replace old new (drop (length old) s)
      else hd s # str_replace old new (tl s))"
  by pat_completeness auto
termination
  by (relation "measure (\<lambda>(old, new, s). length s)") auto

declare str_replace.simps [simp del]

section \<open>Configuration and manifest\<close>

text \<open>
  \<open>MultiImageDataModuleConfig\<close>. The fields \<open>height\<close> and \<open>width\<close> hold an integer or a
  list of integers; they and \<open>resolution_milestones\<close> carry the prefix \<open>cfg_\<close> here,
  because the dataset object has attributes of the same names. The sub-configuration
  \<open>random_camera\<close> belongs to the random-camera collaborator and is not represented.
\<close>

datatype int_or_list = Scalar int | Listed "int list"

record config =
  transform_fp :: string
  image_paths :: "string list"
  cfg_height :: int_or_list
  cfg_width :: int_or_list
  cfg_resolution_milestones :: "int list"
  default_elevation_degs :: "real list"
  default_azimuth_degs :: "real list"
  default_camera_distances :: "real list"
  default_elevation_deg :: real
  default_camera_distance :: real
  default_fovy_deg :: real
  use_random_camera :: bool
  rays_noise_scale :: real
  batch_size :: int
  requires_depth :: bool
  requires_normal :: bool

text \<open>The defaults of the dataclass (lines 37 to 56).\<close>

definition default_config :: config where
  "default_config =
     \<lparr>transform_fp = [], image_paths = [],
      cfg_height = Scalar 96, cfg_width = Scalar 96,
      cfg_resolution_milestones = [],
      default_elevation_degs = [], default_azimuth_degs = [], default_camera_distances = [],
      default_elevation_deg = 0, default_camera_distance = 38 / 10, default_fovy_deg = 60,
      use_random_camera = True, rays_noise_scale = 2 / 1000, batch_size = 1,
      requires_depth = False, requires_normal = False\<rparr>"

text \<open>
  One entry of \<open>meta["frames"]\<close> in the manifest: \<open>file_path\<close> and the list \<open>latlon\<close>
  (polar angle, azimuth, distance).
\<close>

record frame =
  file_path :: string
  latlon :: "real list"

type_synonym image = "real list list list"

text \<open>
  What the module reads from outside: the directory of the module file, the parsed JSON
  manifests by path (\<open>None\<close>: the file cannot be opened), \<open>os.path.exists\<close>, and the image
  collaborators. \<open>imread_rgba path w h\<close> stands for
  \<open>cv2.resize(cv2.cvtColor(cv2.imread(path, UNCHANGED), BGRA2RGBA), (w, h)).astype(float32)\<close>
  and \<open>imread_raw path w h\<close> for the same without the colour conversion; both give
  rows of pixels of channel values. A one-channel image is a pixel list of length one.
\<close>

record env =
  module_dir :: string
  manifests :: "string \<Rightarrow> frame list option"
  path_exists :: "string \<Rightarrow> bool"
  imread_rgba :: "string \<Rightarrow> int \<Rightarrow> int \<Rightarrow> image"
  imread_raw :: "string \<Rightarrow> int \<Rightarrow> int \<Rightarrow> image"

text \<open>
  The loop of \<open>load_transform\<close> (lines 167 to 179): one frame appends its path, its
  elevation \<open>-latlon[0] + default_elevation_deg\<close>, its azimuth \<open>latlon[1]\<close> and its
  distance \<open>latlon[2]\<close> to the configuration.
\<close>

fun read_frames :: "string \<Rightarrow> frame list \<Rightarrow> config \<Rightarrow> py_error + config" where
  "read_frames image_dir [] c = Inr c"
| "read_frames image_dir (fr # rest) c =
     (let fname = os_path_join image_dir (file_path fr);
          c1 = c\<lparr>image_paths := image_paths c @ [fname]\<rparr>
      in case py_index (latlon fr) 0 of
           Inl e \<Rightarrow> Inl e
         | Inr polar \<Rightarrow>
             (let c2 = c1\<lparr>default_elevation_degs :=
                          default_elevation_degs c1 @ [- polar + default_elevation_deg c1]\<rparr>
              in case py_index (latlon fr) 1 of
                   Inl e \<Rightarrow> Inl e
                 | Inr az \<Rightarrow>
                     (let c3 = c2\<lparr>default_azimuth_degs := default_azimuth_degs c2 @ [az]\<rparr>
                      in case py_index (latlon fr) 2 of
                           Inl e \<Rightarrow> Inl e
                         | Inr dst \<Rightarrow>
                             read_frames image_dir rest
                               (c3\<lparr>default_camera_distances :=
                                     default_camera_distances c3 @ [dst]\<rparr>))))"

text \<open>
  \<open>load_transform\<close> (lines 148 to 187). A relative path is resolved against the module
  directory; the four lists of the configuration are emptied and filled by the loop; then
  every distance is multiplied by \<open>default_camera_distance / min(distances)\<close>. Python's
  float division raises \<open>ZeroDivisionError\<close> on a zero divisor.
\<close>

definition resolve_transform_fp :: "env \<Rightarrow> string \<Rightarrow> string" where
  "resolve_transform_fp ev fp0 =
     (if \<not> startswith fp0 ''/''
      then os_path_join (os_path_join (module_dir ev) ''../..'') fp0
      else fp0)"

definition load_transform :: "env \<Rightarrow> config \<Rightarrow> string \<Rightarrow> py_error + config" where
  "load_transform ev c fp0 =
     (let fp = resolve_transform_fp ev fp0;
          image_dir = os_path_dirname fp
      in case manifests ev fp of
           None \<Rightarrow> Inl FileNotFoundError
         | Some frames \<Rightarrow>
             (case read_frames image_dir frames
                     (c\<lparr>image_paths := [], default_elevation_degs := [],
                        default_azimuth_degs := [], default_camera_distances := []\<rparr>) of
                Inl e \<Rightarrow> Inl e
              | Inr c1 \<Rightarrow>
                  (case py_min (default_camera_distances c1) of
                     Inl e \<Rightarrow> Inl e
                   | Inr m \<Rightarrow>
                       if m = 0 then Inl ZeroDivisionError
                       else
                         (let scale_factor = default_camera_distance c1 / m
                          in Inr (c1\<lparr>default_camera_distances :=
                                        map (\<lambda>d. d * scale_factor)
                                          (default_camera_distances c1)\<rparr>)))))"

section \<open>Camera geometry\<close>

type_synonym vec3 = "real \<times> real \<times> real"
type_synonym grid = "vec3 list list"
type_synonym mat = "real list list"

definition vsub :: "vec3 \<Rightarrow> vec3 \<Rightarrow> vec3" where
  "vsub a b = (case a of (a1, a2, a3) \<Rightarrow> case b of (b1, b2, b3) \<Rightarrow> (a1 - b1, a2 - b2, a3 - b3))"

definition vneg :: "vec3 \<Rightarrow> vec3" where
  "vneg a = (case a of (a1, a2, a3) \<Rightarrow> (- a1, - a2, - a3))"

definition vdot :: "vec3 \<Rightarrow> vec3 \<Rightarrow> real" where
  "vdot a b = (case a of (a1, a2, a3) \<Rightarrow> case b of (b1, b2, b3) \<Rightarrow> a1 * b1 + a2 * b2 + a3 * b3)"

definition vnorm :: "vec3 \<Rightarrow> real" where
  "vnorm a = sqrt (vdot a a)"

text \<open>
  The cross product of two vectors of three coordinates. Which axis \<open>torch.cross\<close> takes
  it along is decided where the module calls it, see \<open>compute_right\<close> and \<open>compute_up\<close>.
\<close>

definition cross :: "vec3 \<Rightarrow> vec3 \<Rightarrow> vec3" where
  "cross a b = (case a of (a1, a2, a3) \<Rightarrow> case b of (b1, b2, b3) \<Rightarrow>
     (a2 * b3 - a3 * b2, a3 * b1 - a1 * b3, a1 * b2 - a2 * b1))"

text \<open>
  \<open>F.normalize(v, dim=-1)\<close> with its defaults \<open>p = 2\<close> and \<open>eps = 1e-12\<close>:
  \<open>v / max(norm(v), eps)\<close>. It raises nothing; the zero vector stays the zero vector.
\<close>

definition normalize_eps :: real where
  "normalize_eps = 1 / 10 ^ 12"

definition F_normalize :: "vec3 \<Rightarrow> vec3" where
  "F_normalize v = (case v of (v1, v2, v3) \<Rightarrow>
     (let n = max (vnorm v) normalize_eps in (v1 / n, v2 / n, v3 / n)))"

text \<open>
  Lines 83 to 91 of \<open>setup\<close>. The three tensors have shape \<open>(1, B)\<close> and are the rows here;
  \<open>torch.cat([...]).T\<close> turns the three rows into \<open>B\<close> positions. The three lists come
  from \<open>load_transform\<close> and have one length, so the elementwise products are \<open>map2\<close>.
\<close>

definition deg_to_rad :: "real list \<Rightarrow> real list" where
  "deg_to_rad degs = map (\<lambda>a. a * pi / 180) degs"

definition compute_camera_positions :: "real list \<Rightarrow> real list \<Rightarrow> real list \<Rightarrow> vec3 list" where
  "compute_camera_positions elevation_degs azimuth_degs camera_distances =
     (let elevations = deg_to_rad elevation_degs;
          azimuths = deg_to_rad azimuth_degs;
          xs = map2 (*) (map2 (*) camera_distances (map cos elevations)) (map cos azimuths);
          ys = map2 (*) (map2 (*) camera_distances (map cos elevations)) (map sin azimuths);
          zs = map2 (*) camera_distances (map sin elevations)
      in zip xs (zip ys zs))"

text \<open>
  Lines 93 to 104 of \<open>setup\<close>: the look-at basis of every camera and the matrix
  \<open>c2w\<close>, the three columns \<open>right\<close>, \<open>up\<close>, \<open>-lookat\<close> stacked along the last axis and
  the position appended as fourth column. A matrix is the list of its rows.
\<close>

text \<open>Division of a vector by a scalar, for stating what \<open>F.normalize\<close> returns.\<close>

definition vscale :: "real \<Rightarrow> vec3 \<Rightarrow> vec3" where
  "vscale k v = (case v of (x, y, z) \<Rightarrow> (x / k, y / k, z / k))"

definition world_center :: vec3 where
  "world_center = (0, 0, 0)"

definition world_up :: vec3 where
  "world_up = (0, 0, 1)"

definition compute_lookat :: "vec3 list \<Rightarrow> vec3 list" where
  "compute_lookat camera_positions = map (\<lambda>p. F_normalize (vsub world_center p)) camera_positions"

text \<open>
  Line 98, \<open>F.normalize(torch.cross(lookat, up), dim=-1)\<close>. The module gives
  \<open>torch.cross\<close> no \<open>dim\<close>, and torch then takes the first axis of size three of its first
  argument. \<open>lookat\<close> has the shape \<open>(B, 3)\<close>: with exactly three cameras that axis is the
  camera axis, on which \<open>up\<close>, of shape \<open>(1, 3)\<close>, has size one, and the call raises
  \<open>RuntimeError\<close>. With any other number of cameras it is the coordinate axis and \<open>up\<close> is
  broadcast over the cameras.
\<close>

definition compute_right :: "vec3 list \<Rightarrow> py_error + vec3 list" where
  "compute_right lookat =
     (if length lookat = 3 then Inl RuntimeError
      else Inr (map (\<lambda>l. F_normalize (cross l world_up)) lookat))"

text \<open>
  Line 99, \<open>F.normalize(torch.cross(right, lookat), dim=-1)\<close>, again without \<open>dim\<close>. Both
  arguments have the shape \<open>(B, 3)\<close>. With exactly three cameras the product is taken along
  the camera axis, that is, between the columns of the two \<open>3 \<times> 3\<close> tensors; otherwise
  between their rows. The normalisation is along the coordinate axis in both cases.
\<close>

fun transpose3 :: "vec3 list \<Rightarrow> vec3 list" where
  "transpose3 [(a1, a2, a3), (b1, b2, b3), (d1, d2, d3)] = [(a1, b1, d1), (a2, b2, d2), (a3, b3, d3)]"
| "transpose3 rows = rows"

definition compute_up :: "vec3 list \<Rightarrow> vec3 list \<Rightarrow> vec3 list" where
  "compute_up right lookat =
     (if length right = 3
      then map F_normalize (transpose3 (map2 cross (transpose3 right) (transpose3 lookat)))
      else map2 (\<lambda>r l. F_normalize (cross r l)) right lookat)"

definition c2w_matrix :: "vec3 \<Rightarrow> vec3 \<Rightarrow> vec3 \<Rightarrow> vec3 \<Rightarrow> mat" where
  "c2w_matrix c0 c1 c2 c3 =
     (case c0 of (a1, a2, a3) \<Rightarrow> case c1 of (b1, b2, b3) \<Rightarrow>
      case c2 of (d1, d2, d3) \<Rightarrow> case c3 of (p1, p2, p3) \<Rightarrow>
        [[a1, b1, d1, p1], [a2, b2, d2, p2], [a3, b3, d3, p3]])"

definition compute_c2w :: "vec3 list \<Rightarrow> py_error + mat list" where
  "compute_c2w camera_positions =
     (let lookat = compute_lookat camera_positions
      in case compute_right lookat of
           Inl e \<Rightarrow> Inl e
         | Inr right \<Rightarrow>
             (let up = compute_up right lookat
              in Inr (map (\<lambda>(r, u, l, p). c2w_matrix r u (vneg l) p)
                        (zip right (zip up (zip lookat camera_positions))))))"


section \<open>The dataset object\<close>

text \<open>
  The functions of \<open>threestudio.utils.ops\<close> are not part of this module; they are
  parameters. \<open>get_rays\<close> returns the pair \<open>(rays_o, rays_d)\<close>, one grid per camera; its
  random jitter is not represented.
\<close>

record ops =
  get_ray_directions :: "int \<Rightarrow> int \<Rightarrow> real \<Rightarrow> grid"
  get_rays :: "grid \<Rightarrow> mat list \<Rightarrow> real \<Rightarrow> grid list \<times> grid list"
  get_projection_matrix :: "real \<Rightarrow> real \<Rightarrow> real \<Rightarrow> real \<Rightarrow> mat"
  get_mvp_matrix :: "mat list \<Rightarrow> mat \<Rightarrow> mat list"

text \<open>
  What the object does besides changing its attributes is recorded in \<open>trace\<close>: the
  warning of \<open>setup\<close>, the debug line of \<open>update_step_\<close>, and one entry for every run of
  \<open>set_rays\<close> and of \<open>load_images\<close> with the height and width it ran at.
\<close>

datatype event =
    Warn string
  | Debug int int
  | RaysSet int int
  | ImagesLoaded int int

text \<open>
  The attributes of \<open>MultiImageDataBase\<close>. Tensors that are shared between attributes
  live in \<open>heap\<close>, a store from addresses to grids: \<open>directions_unit_focals\<close> is the list
  of the addresses of the per-tier grids and \<open>directions_unit_focal\<close> is one of these
  addresses, the same tensor object as the list entry. \<open>split\<close> and \<open>mask\<close> are named
  \<open>split_name\<close> and \<open>mask_t\<close>. \<open>camera_positions\<close> keeps the \<open>B\<close> rows; the
  \<open>squeeze(0)\<close> of line 106 is applied where \<open>collate\<close> reads the attribute.
\<close>

record dataset =
  split_name :: string
  cfg :: config
  c2w :: "mat list"
  camera_positions :: "vec3 list"
  light_position :: "vec3 list"
  elevation_degs :: "real list"
  azimuth_degs :: "real list"
  camera_distances :: "real list"
  fovy :: real
  heights :: "int list"
  widths :: "int list"
  resolution_milestones :: "int list"
  heap :: "nat \<Rightarrow> grid"
  directions_unit_focals :: "nat list"
  focal_lengths :: "real list"
  height :: int
  width :: int
  directions_unit_focal :: nat
  focal_length :: real
  rays_o :: "grid list"
  rays_d :: "grid list"
  mvp_mtx :: "mat list"
  rgb :: "image list"
  mask_t :: "bool list list list list"
  depth :: "image list option"
  normal :: "image list option"
  prev_height :: int
  trace :: "event list"

text \<open>
  \<open>set_rays\<close> (lines 189 to 204). \<open>self.directions_unit_focal[None]\<close> is a view of the
  cached tensor, so the assignment to \<open>directions[:, :, :, :2]\<close> writes the first two
  coordinates, divided by the focal length, into the cached tensor itself. The division
  \<open>self.width / self.height\<close> of two Python integers raises on a zero height.
\<close>

definition scale_xy :: "real \<Rightarrow> grid \<Rightarrow> grid" where
  "scale_xy f g = map (map (\<lambda>(x, y, z). (x / f, y / f, z))) g"

definition set_rays :: "ops \<Rightarrow> dataset \<Rightarrow> py_error + dataset" where
  "set_rays op s =
     (let a = directions_unit_focal s;
          directions = scale_xy (focal_length s) (heap s a);
          s1 = s\<lparr>heap := (heap s)(a := directions)\<rparr>;
          rays = get_rays op directions (c2w s1) (rays_noise_scale (cfg s1))
      in if height s1 = 0 then Inl ZeroDivisionError
         else
           (let proj_mtx = get_projection_matrix op (fovy s1)
                             (real_of_int (width s1) / real_of_int (height s1)) (1 / 10) 100;
                mvp = get_mvp_matrix op (c2w s1) proj_mtx
            in Inr (s1\<lparr>rays_o := fst rays, rays_d := snd rays, mvp_mtx := mvp,
                        trace := trace s1 @ [RaysSet (height s1) (width s1)]\<rparr>)))"

text \<open>
  \<open>load_images\<close> (lines 206 to 272). Every path must exist; the companion depth and
  normal images are found by replacing the suffix \<open>_rgba.png\<close>. \<open>np.stack\<close> raises
  \<open>ValueError\<close> on an empty list. The \<open>print\<close> calls are not represented.
\<close>

definition load_companion ::
  "env \<Rightarrow> bool \<Rightarrow> string \<Rightarrow> string \<Rightarrow> int \<Rightarrow> int \<Rightarrow> image list \<Rightarrow> py_error + image list" where
  "load_companion ev required suffix path w h acc =
     (if required then
        (let companion_path = str_replace ''_rgba.png'' suffix path
         in if \<not> path_exists ev companion_path then Inl AssertionError
            else Inr (acc @ [map (map (map (\<lambda>v. v / 255))) (imread_raw ev companion_path w h)]))
      else Inr acc)"

fun load_images_loop ::
  "env \<Rightarrow> config \<Rightarrow> int \<Rightarrow> int \<Rightarrow> string list
    \<Rightarrow> image list \<times> bool list list list list \<times> image list \<times> image list
    \<Rightarrow> py_error + image list \<times> bool list list list list \<times> image list \<times> image list" where
  "load_images_loop ev c w h [] acc = Inr acc"
| "load_images_loop ev c w h (path # rest) (rgbs, masks, normals, depths) =
     (if \<not> path_exists ev path then Inl AssertionError
      else
        (let rgba = map (map (map (\<lambda>v. v / 255))) (imread_rgba ev path w h);
             rgb_img = map (map (take 3)) rgba;
             mask_img = map (map (\<lambda>px. map (\<lambda>v. v > 1 / 2) (drop 3 px))) rgba
         in case load_companion ev (requires_depth c) ''_depth.png'' path w h depths of
              Inl e \<Rightarrow> Inl e
            | Inr depths1 \<Rightarrow>
                (case load_companion ev (requires_normal c) ''_normal.png'' path w h normals of
                   Inl e \<Rightarrow> Inl e
                 | Inr normals1 \<Rightarrow>
                     load_images_loop ev c w h rest
                       (rgbs @ [rgb_img], masks @ [mask_img], normals1, depths1))))"

definition load_images :: "env \<Rightarrow> dataset \<Rightarrow> py_error + dataset" where
  "load_images ev s =
     (case load_images_loop ev (cfg s) (width s) (height s) (image_paths (cfg s))
             ([], [], [], []) of
        Inl e \<Rightarrow> Inl e
      | Inr (rgbs, masks, normals, depths) \<Rightarrow>
          if rgbs = [] then Inl ValueError
          else Inr (s\<lparr>rgb := rgbs, mask_t := masks,
                      depth := (if requires_depth (cfg s) then Some depths else None),
                      normal := (if requires_normal (cfg s) then Some normals else None),
                      trace := trace s @ [ImagesLoaded (height s) (width s)]\<rparr>))"

section \<open>Setup\<close>

text \<open>
  Lines 114 to 130 of \<open>setup\<close>: the lists of heights and widths, the two assertions and
  the milestone list. The result carries the warning that was logged, if any.
\<close>

definition as_list :: "int_or_list \<Rightarrow> int list" where
  "as_list v = (case v of Scalar n \<Rightarrow> [n] | Listed ns \<Rightarrow> ns)"

definition setup_resolution ::
  "config \<Rightarrow> py_error + int list \<times> int list \<times> int list \<times> event list" where
  "setup_resolution c =
     (let hs = as_list (cfg_height c); ws = as_list (cfg_width c)
      in if length hs \<noteq> length ws then Inl AssertionError
         else if length hs = 1 \<and> length ws = 1 then
           Inr (hs, ws, [- 1],
                if length (cfg_resolution_milestones c) > 0
                then [Warn ''Ignoring resolution_milestones since height and width are not changing'']
                else [])
         else if length hs \<noteq> length (cfg_resolution_milestones c) + 1 then Inl AssertionError
         else Inr (hs, ws, - 1 # cfg_resolution_milestones c, []))"

text \<open>
  \<open>camera_positions.squeeze(0)\<close> (line 106) drops the first axis only when it has size
  one, so with a single frame the attribute is the vector of three coordinates.
\<close>

datatype pos_tensor =
    PosRows "vec3 list"
  | PosVec vec3
  | PosScalars "real list"

definition squeeze0 :: "vec3 list \<Rightarrow> pos_tensor" where
  "squeeze0 ps = (case ps of [p] \<Rightarrow> PosVec p | _ \<Rightarrow> PosRows ps)"

text \<open>
  Lines 79 to 143 of \<open>setup\<close>: the attributes computed from the configuration that
  \<open>load_transform\<close> completed. The attributes that \<open>set_rays\<close> and \<open>load_images\<close> assign
  first have empty values in the record. Every per-tier grid gets its own address in the
  store. \<open>camera_positions[[0]]\<close> and the subscriptions \<open>[0]\<close> raise on an empty list,
  and the look-at basis raises with exactly three cameras, before the assertions on the
  heights are reached.
\<close>

definition initial_dataset :: "ops \<Rightarrow> config \<Rightarrow> string \<Rightarrow> py_error + dataset" where
  "initial_dataset op c split =
     (let positions = compute_camera_positions (default_elevation_degs c)
            (default_azimuth_degs c) (default_camera_distances c)
      in if positions = [] then Inl IndexError
         else
           (case compute_c2w positions of Inl e \<Rightarrow> Inl e | Inr c2w_all \<Rightarrow>
           (case setup_resolution c of
              Inl e \<Rightarrow> Inl e
            | Inr (hs, ws, milestones, warnings) \<Rightarrow>
                (let fov = default_fovy_deg c * pi / 180;
                     grids = map2 (\<lambda>h w. get_ray_directions op h w 1) hs ws;
                     addrs = [0..<length grids];
                     focals = map (\<lambda>h. (1 / 2) * real_of_int h / tan ((1 / 2) * fov)) hs
                 in case py_index hs 0 of Inl e \<Rightarrow> Inl e | Inr h0 \<Rightarrow>
                    (case py_index ws 0 of Inl e \<Rightarrow> Inl e | Inr w0 \<Rightarrow>
                    (case py_index addrs 0 of Inl e \<Rightarrow> Inl e | Inr a0 \<Rightarrow>
                    (case py_index focals 0 of Inl e \<Rightarrow> Inl e | Inr f0 \<Rightarrow>
                       Inr \<lparr>split_name = split, cfg = c,
                            c2w = c2w_all,
                            camera_positions = positions,
                            light_position = [hd positions],
                            elevation_degs = default_elevation_degs c,
                            azimuth_degs = default_azimuth_degs c,
                            camera_distances = default_camera_distances c,
                            fovy = fov,
                            heights = hs, widths = ws,
                            resolution_milestones = milestones,
                            heap = (\<lambda>a. if a < length grids then grids ! a else []),
                            directions_unit_focals = addrs,
                            focal_lengths = focals,
                            height = h0, width = w0,
                            directions_unit_focal = a0, focal_length = f0,
                            rays_o = [], rays_d = [], mvp_mtx = [],
                            rgb = [], mask_t = [], depth = None, normal = None,
                            prev_height = 0, trace = warnings\<rparr>)))))))"

text \<open>Lines 144 to 146 of \<open>setup\<close>: the first rays, the first images, and \<open>prev_height\<close>.\<close>

definition finish_setup :: "ops \<Rightarrow> env \<Rightarrow> dataset \<Rightarrow> py_error + dataset" where
  "finish_setup op ev s0 =
     (case set_rays op s0 of
        Inl e \<Rightarrow> Inl e
      | Inr s1 \<Rightarrow>
          (case load_images ev s1 of
             Inl e \<Rightarrow> Inl e
           | Inr s2 \<Rightarrow> Inr (s2\<lparr>prev_height := height s2\<rparr>)))"

text \<open>
  \<open>setup\<close> (lines 60 to 146), here \<open>setup_dataset\<close>. The construction of the
  random-camera collaborator (lines 66 to 77) has no effect on the attributes modelled
  here and is left out.
\<close>

definition setup_dataset :: "ops \<Rightarrow> env \<Rightarrow> config \<Rightarrow> string \<Rightarrow> py_error + dataset" where
  "setup_dataset op ev c0 split =
     (case load_transform ev c0 (transform_fp c0) of
        Inl e \<Rightarrow> Inl e
      | Inr c \<Rightarrow>
          (case initial_dataset op c split of
             Inl e \<Rightarrow> Inl e
           | Inr s0 \<Rightarrow> finish_setup op ev s0))"

section \<open>The step-update hook\<close>

text \<open>
  Line 278 of \<open>update_step_\<close>:
  \<open>size_ind = bisect.bisect_right(self.resolution_milestones, global_step) - 1\<close>.
\<close>

definition size_ind :: "int list \<Rightarrow> int \<Rightarrow> int" where
  "size_ind milestones global_step = int (bisect_right milestones global_step) - 1"

text \<open>
  \<open>update_step_\<close> (lines 277 to 289), here \<open>update_step\<close>. The height of the selected tier is assigned first;
  the method returns when it equals \<open>prev_height\<close>, and otherwise takes the tier's width,
  grid and focal length, logs, and runs \<open>set_rays\<close> and \<open>load_images\<close>.
\<close>

definition update_step ::
  "ops \<Rightarrow> env \<Rightarrow> dataset \<Rightarrow> int \<Rightarrow> int \<Rightarrow> bool \<Rightarrow> py_error + dataset" where
  "update_step op ev s epoch global_step on_load_weights =
     (let i = size_ind (resolution_milestones s) global_step
      in case py_index (heights s) i of
           Inl e \<Rightarrow> Inl e
         | Inr h \<Rightarrow>
             (let s1 = s\<lparr>height := h\<rparr>
              in if height s1 = prev_height s1 then Inr s1
                 else
                   (let s2 = s1\<lparr>prev_height := height s1\<rparr>
                    in case py_index (widths s2) i of Inl e \<Rightarrow> Inl e | Inr w \<Rightarrow>
                       (case py_index (directions_unit_focals s2) i of Inl e \<Rightarrow> Inl e | Inr a \<Rightarrow>
                       (case py_index (focal_lengths s2) i of Inl e \<Rightarrow> Inl e | Inr f \<Rightarrow>
                          (let s3 = s2\<lparr>width := w, directions_unit_focal := a, focal_length := f\<rparr>;
                               s4 = s3\<lparr>trace := trace s3 @ [Debug (height s3) (width s3)]\<rparr>
                           in case set_rays op s4 of
                                Inl e \<Rightarrow> Inl e
                              | Inr s5 \<Rightarrow> load_images ev s5))))))"

section \<open>The training batch\<close>

text \<open>
  \<open>bool(t)\<close> of a tensor, which \<open>not self.depth\<close> evaluates: a tensor with exactly one
  element is true when that element is not zero; any other number of elements raises
  \<open>RuntimeError\<close>. \<open>not None\<close> is \<open>True\<close>.
\<close>

definition numel :: "image list \<Rightarrow> nat" where
  "numel t = length (concat (concat (concat t)))"

definition tensor_bool :: "image list \<Rightarrow> py_error + bool" where
  "tensor_bool t = (case concat (concat (concat t)) of [v] \<Rightarrow> Inr (v \<noteq> 0) | _ \<Rightarrow> Inl RuntimeError)"

definition py_not :: "image list option \<Rightarrow> py_error + bool" where
  "py_not t = (case t of
       None \<Rightarrow> Inr True
     | Some x \<Rightarrow> (case tensor_bool x of Inl e \<Rightarrow> Inl e | Inr b \<Rightarrow> Inr (\<not> b)))"

text \<open>
  \<open>t[idx]\<close> for the one-element index tensor \<open>idx\<close>: the selected entry with the leading
  axis kept; \<open>None[idx]\<close> raises \<open>TypeError\<close>.
\<close>

definition tensor_index :: "'a list \<Rightarrow> nat \<Rightarrow> py_error + 'a list" where
  "tensor_index t i = (if i < length t then Inr [t ! i] else Inl IndexError)"

definition opt_index :: "'a list option \<Rightarrow> nat \<Rightarrow> py_error + 'a list" where
  "opt_index t i = (case t of None \<Rightarrow> Inl TypeError | Some x \<Rightarrow> tensor_index x i)"

definition pos_index :: "pos_tensor \<Rightarrow> nat \<Rightarrow> py_error + pos_tensor" where
  "pos_index t i = (case t of
       PosRows ps \<Rightarrow> (if i < length ps then Inr (PosRows [ps ! i]) else Inl IndexError)
     | PosVec p \<Rightarrow> (case p of (x, y, z) \<Rightarrow>
         (if i < 3 then Inr (PosScalars [[x, y, z] ! i]) else Inl IndexError))
     | PosScalars xs \<Rightarrow> (if i < length xs then Inr (PosScalars [xs ! i]) else Inl IndexError))"

text \<open>
  The dictionary that \<open>collate\<close> returns, one field per key. \<open>ref_depth\<close> and
  \<open>ref_normal\<close> are \<open>None\<close> or a tensor; \<open>random_camera\<close> is present when
  \<open>use_random_camera\<close> is set and holds what the random-camera collaborator returned.
\<close>

record 'c batch =
  batch_rays_o :: "grid list"
  batch_rays_d :: "grid list"
  batch_mvp_mtx :: "mat list"
  batch_camera_positions :: pos_tensor
  batch_light_positions :: "vec3 list"
  batch_elevation :: "real list"
  batch_azimuth :: "real list"
  batch_camera_distances :: "real list"
  batch_rgb :: "image list"
  batch_ref_depth :: "image list option"
  batch_ref_normal :: "image list option"
  batch_mask :: "bool list list list list"
  batch_height :: int_or_list
  batch_width :: int_or_list
  batch_random_camera :: "'c option"

text \<open>
  The two gated entries of \<open>collate\<close> (lines 310 and 311):
  \<open>None if not self.depth else self.depth[idx]\<close> and
  \<open>None if not self.depth else self.normal[idx]\<close>.
\<close>

definition ref_depth_entry :: "dataset \<Rightarrow> nat \<Rightarrow> py_error + image list option" where
  "ref_depth_entry s idx =
     (case py_not (depth s) of
        Inl e \<Rightarrow> Inl e
      | Inr True \<Rightarrow> Inr None
      | Inr False \<Rightarrow> (case opt_index (depth s) idx of Inl e \<Rightarrow> Inl e | Inr t \<Rightarrow> Inr (Some t)))"

definition ref_normal_entry :: "dataset \<Rightarrow> nat \<Rightarrow> py_error + image list option" where
  "ref_normal_entry s idx =
     (case py_not (depth s) of
        Inl e \<Rightarrow> Inl e
      | Inr True \<Rightarrow> Inr None
      | Inr False \<Rightarrow> (case opt_index (normal s) idx of Inl e \<Rightarrow> Inl e | Inr t \<Rightarrow> Inr (Some t)))"

text \<open>
  \<open>collate\<close> (lines 298 to 319). \<open>idx\<close> is the index drawn by
  \<open>torch.randint(0, len(self.rgb), (1,))\<close> and \<open>rc\<close> the batch of the random-camera
  collaborator. The entries are evaluated in the order of the dictionary display.
\<close>

definition collate :: "dataset \<Rightarrow> nat \<Rightarrow> 'c \<Rightarrow> py_error + 'c batch" where
  "collate s idx rc =
     (case tensor_index (rays_o s) idx of Inl e \<Rightarrow> Inl e | Inr ro \<Rightarrow>
     (case tensor_index (rays_d s) idx of Inl e \<Rightarrow> Inl e | Inr rd \<Rightarrow>
     (case tensor_index (mvp_mtx s) idx of Inl e \<Rightarrow> Inl e | Inr mvp \<Rightarrow>
     (case pos_index (squeeze0 (camera_positions s)) idx of Inl e \<Rightarrow> Inl e | Inr cp \<Rightarrow>
     (case tensor_index (elevation_degs s) idx of Inl e \<Rightarrow> Inl e | Inr el \<Rightarrow>
     (case tensor_index (azimuth_degs s) idx of Inl e \<Rightarrow> Inl e | Inr az \<Rightarrow>
     (case tensor_index (camera_distances s) idx of Inl e \<Rightarrow> Inl e | Inr cd \<Rightarrow>
     (case tensor_index (rgb s) idx of Inl e \<Rightarrow> Inl e | Inr im \<Rightarrow>
     (case ref_depth_entry s idx of Inl e \<Rightarrow> Inl e | Inr rdepth \<Rightarrow>
     (case ref_normal_entry s idx of Inl e \<Rightarrow> Inl e | Inr rnormal \<Rightarrow>
     (case tensor_index (mask_t s) idx of Inl e \<Rightarrow> Inl e | Inr mk \<Rightarrow>
        Inr \<lparr>batch_rays_o = ro, batch_rays_d = rd, batch_mvp_mtx = mvp,
             batch_camera_positions = cp,
             batch_light_positions = light_position s,
             batch_elevation = el, batch_azimuth = az, batch_camera_distances = cd,
             batch_rgb = im, batch_ref_depth = rdepth, batch_ref_normal = rnormal,
             batch_mask = mk,
             batch_height = cfg_height (cfg s), batch_width = cfg_width (cfg s),
             batch_random_camera = (if use_random_camera (cfg s) then Some rc else None)\<rparr>
     )))))))))))"

section \<open>Auxiliary predicates\<close>

text \<open>
  Every image path of the configuration exists, and so does every companion depth and
  normal image that the configuration requires.
\<close>

definition companions_exist :: "env \<Rightarrow> config \<Rightarrow> bool" where
  "companions_exist ev c =
     (list_all (path_exists ev) (image_paths c)
      \<and> (\<not> requires_depth c \<or>
           list_all (\<lambda>p. path_exists ev (str_replace ''_rgba.png'' ''_depth.png'' p)) (image_paths c))
      \<and> (\<not> requires_normal c \<or>
           list_all (\<lambda>p. path_exists ev (str_replace ''_rgba.png'' ''_normal.png'' p)) (image_paths c)))"

text \<open>
  The matrix of one camera when the products of lines 98 and 99 are taken along the
  coordinate axis, which is what \<open>compute_c2w\<close> does for any number of cameras but three.
\<close>

definition camera_basis :: "vec3 \<Rightarrow> mat" where
  "camera_basis p =
     (let l = F_normalize (vsub world_center p);
          r = F_normalize (cross l world_up);
          u = F_normalize (cross r l)
      in c2w_matrix r u (vneg l) p)"

text \<open>The per-tier lists of the dataset have one length.\<close>

definition tiers_aligned :: "dataset \<Rightarrow> bool" where
  "tiers_aligned s =
     (length (widths s) = length (heights s)
      \<and> length (directions_unit_focals s) = length (heights s)
      \<and> length (focal_lengths s) = length (heights s))"

section \<open>Example inputs\<close>

text \<open>
  A file system with one manifest at \<open>/data/transforms.json\<close> in which every image exists
  and decodes to an opaque white picture of the requested size, and stand-ins for the
  functions of \<open>threestudio.utils.ops\<close>: a pinhole grid centred on the image, rays that
  repeat the directions for every camera, and matrices of zeros.
\<close>

definition example_env :: "frame list \<Rightarrow> env" where
  "example_env frames =
     \<lparr>module_dir = ''/repo/threestudio/data'',
      manifests = (\<lambda>p. if p = ''/data/transforms.json'' then Some frames else None),
      path_exists = (\<lambda>p. True),
      imread_rgba = (\<lambda>p w h. replicate (nat h) (replicate (nat w) [255, 255, 255, 255])),
      imread_raw = (\<lambda>p w h. replicate (nat h) (replicate (nat w) [255]))\<rparr>"

definition example_ops :: ops where
  "example_ops =
     \<lparr>get_ray_directions = (\<lambda>h w f.
        map (\<lambda>j. map (\<lambda>i. ((real i + 1 / 2 - real_of_int w / 2) / f,
                             - (real j + 1 / 2 - real_of_int h / 2) / f, - 1))
                      [0..<nat w])
            [0..<nat h]),
      get_rays = (\<lambda>directions c n. (map (\<lambda>m. directions) c, map (\<lambda>m. directions) c)),
      get_projection_matrix = (\<lambda>fov aspect near far. replicate 4 (replicate 4 0)),
      get_mvp_matrix = (\<lambda>c proj. map (\<lambda>m. proj) c)\<rparr>"

definition example_frames :: "frame list" where
  "example_frames =
     [\<lparr>file_path = ''a_rgba.png'', latlon = [0, 0, 2]\<rparr>,
      \<lparr>file_path = ''b_rgba.png'', latlon = [10, 90, 4]\<rparr>,
      \<lparr>file_path = ''c_rgba.png'', latlon = [- 30, 180, 8]\<rparr>]"

definition example_config :: config where
  "example_config = default_config\<lparr>transform_fp := ''/data/transforms.json''\<rparr>"

text \<open>A manifest of two frames, the first two of the three above.\<close>

definition example_pair_frames :: "frame list" where
  "example_pair_frames =
     [\<lparr>file_path = ''a_rgba.png'', latlon = [0, 0, 2]\<rparr>,
      \<lparr>file_path = ''b_rgba.png'', latlon = [10, 90, 4]\<rparr>]"

text \<open>
  Variations: one tier with a milestone given, two tiers of equal height and different
  width, two tiers without any milestone, two tiers of growing size seen with a field of
  view of \<open>90\<close> degrees, and three tiers with the milestones \<open>100\<close> and \<open>500\<close>.
\<close>

definition example_config_warn :: config where
  "example_config_warn = example_config\<lparr>cfg_resolution_milestones := [100]\<rparr>"

definition example_config_tiers :: config where
  "example_config_tiers =
     example_config\<lparr>cfg_height := Listed [2, 2], cfg_width := Listed [2, 4],
                    cfg_resolution_milestones := [100]\<rparr>"

definition example_config_mismatch :: config where
  "example_config_mismatch =
     example_config\<lparr>cfg_height := Listed [64, 128], cfg_width := Listed [64, 128]\<rparr>"

definition example_config_grow :: config where
  "example_config_grow =
     example_config\<lparr>cfg_height := Listed [2, 4], cfg_width := Listed [2, 4],
                    cfg_resolution_milestones := [100], default_fovy_deg := 90\<rparr>"


text \<open>
  The dataset that \<open>setup\<close> builds from an example configuration and the manifest of two
  frames.
\<close>

definition example_dataset :: "config \<Rightarrow> dataset" where
  "example_dataset c =
     projr (setup_dataset example_ops (example_env example_pair_frames) c ''train'')"

text \<open>
  A manifest of two frames with the first camera straight above the origin, a reference
  distance of one, and a reference distance of zero, which puts every camera at the
  origin.
\<close>

definition example_top_frames :: "frame list" where
  "example_top_frames =
     [\<lparr>file_path = ''top_rgba.png'', latlon = [- 90, 0, 1]\<rparr>,
      \<lparr>file_path = ''side_rgba.png'', latlon = [0, 0, 1]\<rparr>]"


definition example_config_unit :: config where
  "example_config_unit = example_config\<lparr>default_camera_distance := 1\<rparr>"

definition example_top_dataset :: dataset where
  "example_top_dataset =
     projr (setup_dataset example_ops (example_env example_top_frames) example_config_unit ''train'')"

text \<open>
  Further variations: a tier of \<open>4 \<times> 4\<close> pixels seen with a field of view of \<open>90\<close>
  degrees, normals required without depth, and depth required on a tier of \<open>2 \<times> 2\<close>
  pixels.
\<close>

definition example_config_fov90 :: config where
  "example_config_fov90 =
     example_config\<lparr>cfg_height := Scalar 4, cfg_width := Scalar 4, default_fovy_deg := 90\<rparr>"

definition example_config_normal :: config where
  "example_config_normal =
     example_config\<lparr>cfg_height := Scalar 2, cfg_width := Scalar 2, requires_normal := True\<rparr>"

definition example_config_depth :: config where
  "example_config_depth =
     example_config\<lparr>cfg_height := Scalar 2, cfg_width := Scalar 2, requires_depth := True\<rparr>"

section \<open>Tier selection\<close>






section \<open>The manifest loader\<close>

lemma py_index_nat:
  "n < length xs \<Longrightarrow> py_index xs (int n) = Inr (xs ! n)"
  by (simp add: py_index_def)

lemma py_index_Inr_nat:
  "py_index xs (int n) = Inr v \<Longrightarrow> n < length xs \<and> v = xs ! n"
  by (auto simp: py_index_def split: if_splits)

lemma py_index_012:
  "3 \<le> length xs \<Longrightarrow> py_index xs 0 = Inr (xs ! 0)"
  "3 \<le> length xs \<Longrightarrow> py_index xs 1 = Inr (xs ! 1)"
  "3 \<le> length xs \<Longrightarrow> py_index xs 2 = Inr (xs ! 2)"
  by (auto simp: py_index_def)

lemma py_index_2_Inr: "py_index xs 2 = Inr v \<Longrightarrow> 3 \<le> length xs"
  using py_index_Inr_nat [of xs 2 v] by simp

lemma read_frames_Inr:
  "read_frames d frs c = Inr c' \<Longrightarrow>
     c' = c\<lparr>image_paths := image_paths c @ map (\<lambda>f. os_path_join d (file_path f)) frs,
            default_elevation_degs := default_elevation_degs c
               @ map (\<lambda>f. - (latlon f ! 0) + default_elevation_deg c) frs,
            default_azimuth_degs := default_azimuth_degs c @ map (\<lambda>f. latlon f ! 1) frs,
            default_camera_distances := default_camera_distances c @ map (\<lambda>f. latlon f ! 2) frs\<rparr>
     \<and> list_all (\<lambda>f. 3 \<le> length (latlon f)) frs"
proof (induction frs arbitrary: c)
  case Nil
  then show ?case by simp
next
  case (Cons fr rest)
  from Cons.prems have len: "3 \<le> length (latlon fr)"
    by (auto simp: Let_def split: sum.splits dest: py_index_2_Inr)
  with Cons.prems have
    "read_frames d rest
       (c\<lparr>image_paths := image_paths c @ [os_path_join d (file_path fr)],
          default_elevation_degs := default_elevation_degs c @ [- (latlon fr ! 0) + default_elevation_deg c],
          default_azimuth_degs := default_azimuth_degs c @ [latlon fr ! 1],
          default_camera_distances := default_camera_distances c @ [latlon fr ! 2]\<rparr>) = Inr c'"
    by (simp add: py_index_012 Let_def)
  from Cons.IH [OF this] len show ?case by simp
qed

lemma read_frames_eq:
  "list_all (\<lambda>f. 3 \<le> length (latlon f)) frs \<Longrightarrow>
   read_frames d frs c =
     Inr (c\<lparr>image_paths := image_paths c @ map (\<lambda>f. os_path_join d (file_path f)) frs,
            default_elevation_degs := default_elevation_degs c
               @ map (\<lambda>f. - (latlon f ! 0) + default_elevation_deg c) frs,
            default_azimuth_degs := default_azimuth_degs c @ map (\<lambda>f. latlon f ! 1) frs,
            default_camera_distances := default_camera_distances c @ map (\<lambda>f. latlon f ! 2) frs\<rparr>)"
proof (induction frs arbitrary: c)
  case Nil
  then show ?case by simp
next
  case (Cons fr rest)
  then show ?case by (simp add: py_index_012 Let_def)
qed

lemma py_min_Min:
  assumes "xs \<noteq> []"
  shows "py_min xs = Inr (Min (set xs))"
proof (cases xs)
  case Nil
  with assms show ?thesis by simp
next
  case (Cons a list)
  then show ?thesis using Min.set_eq_fold [of a list] by (simp add: py_min_def)
qed

lemma Min_scale:
  fixes k :: real
  assumes "xs \<noteq> []" "0 \<le> k"
  shows "Min (set (map (\<lambda>d. d * k) xs)) = Min (set xs) * k"
proof -
  have "mono (\<lambda>d. d * k)" using assms(2) by (simp add: mono_def mult_right_mono)
  then have "(\<lambda>d. d * k) (Min (set xs)) = Min ((\<lambda>d. d * k) ` set xs)"
    using assms(1) by (intro mono_Min_commute) simp_all
  then show ?thesis by simp
qed


lemma load_transform_eq:
  assumes "manifests ev (resolve_transform_fp ev fp0) = Some frames"
    and "frames \<noteq> []"
    and "list_all (\<lambda>f. 3 \<le> length (latlon f)) frames"
    and "Min (set (map (\<lambda>f. latlon f ! 2) frames)) \<noteq> 0"
  shows "load_transform ev c fp0 =
     Inr (c\<lparr>image_paths :=
              map (\<lambda>f. os_path_join (os_path_dirname (resolve_transform_fp ev fp0)) (file_path f)) frames,
            default_elevation_degs := map (\<lambda>f. - (latlon f ! 0) + default_elevation_deg c) frames,
            default_azimuth_degs := map (\<lambda>f. latlon f ! 1) frames,
            default_camera_distances :=
              map (\<lambda>d. d * (default_camera_distance c / Min (set (map (\<lambda>f. latlon f ! 2) frames))))
                (map (\<lambda>f. latlon f ! 2) frames)\<rparr>)"
  using assms
  by (simp add: load_transform_def Let_def read_frames_eq py_min_Min)

lemma load_transform_Inr:
  assumes "load_transform ev c fp0 = Inr c'"
  shows "\<exists>frames. manifests ev (resolve_transform_fp ev fp0) = Some frames
    \<and> frames \<noteq> []
    \<and> list_all (\<lambda>f. 3 \<le> length (latlon f)) frames
    \<and> Min (set (map (\<lambda>f. latlon f ! 2) frames)) \<noteq> 0"
proof -
  from assms obtain frames where m: "manifests ev (resolve_transform_fp ev fp0) = Some frames"
    by (auto simp: load_transform_def Let_def split: option.splits)
  let ?c0 = "c\<lparr>image_paths := [], default_elevation_degs := [],
                 default_azimuth_degs := [], default_camera_distances := []\<rparr>"
  from assms m obtain c1 where
    r: "read_frames (os_path_dirname (resolve_transform_fp ev fp0)) frames ?c0 = Inr c1"
    by (auto simp: load_transform_def Let_def split: sum.splits)
  note rf = read_frames_Inr [OF r]
  from rf have ds: "default_camera_distances c1 = map (\<lambda>f. latlon f ! 2) frames" by simp
  from assms m r obtain mn where mn: "py_min (default_camera_distances c1) = Inr mn" "mn \<noteq> 0"
    by (auto simp: load_transform_def Let_def split: sum.splits if_splits)
  from mn(1) ds have ne: "frames \<noteq> []" by (auto simp: py_min_def)
  with mn ds have "Min (set (map (\<lambda>f. latlon f ! 2) frames)) \<noteq> 0"
    using py_min_Min [of "map (\<lambda>f. latlon f ! 2) frames"] by simp
  with m ne rf show ?thesis by blast
qed

lemma load_transform_example:
  "load_transform (example_env example_frames) example_config (transform_fp example_config) =
     Inr (example_config\<lparr>image_paths := [''/data/a_rgba.png'', ''/data/b_rgba.png'', ''/data/c_rgba.png''],
            default_elevation_degs := [0, - 10, 30],
            default_azimuth_degs := [0, 90, 180],
            default_camera_distances := [38 / 10, 76 / 10, 152 / 10]\<rparr>)"
  by (simp add: load_transform_def resolve_transform_fp_def example_env_def example_frames_def
      example_config_def default_config_def os_path_dirname_def os_path_join_def startswith_def
      py_index_def py_min_def Let_def)


lemma Min_pos_list:
  fixes xs :: "real list"
  assumes "xs \<noteq> []" "list_all (\<lambda>d. 0 < d) xs"
  shows "0 < Min (set xs)"
  using assms by (simp add: list_all_iff)

text \<open>
  Claim C5. When the manifest holds at least one frame, every frame has its three pose
  entries and every distance is positive, \<open>load_transform\<close> succeeds and multiplies every
  distance by the one factor \<open>default_camera_distance / min(distances)\<close>, taken after all
  frames were read; for a reference distance that is not negative the smallest
  normalised distance is the reference distance. The distances \<open>[2, 4, 8]\<close> with the
  reference \<open>3.8\<close> give the factor \<open>1.9\<close> and the distances \<open>[3.8, 7.6, 15.2]\<close>.
\<close>

theorem distance_normalization:
  "(manifests ev (resolve_transform_fp ev fp0) = Some frames \<and> frames \<noteq> []
      \<and> list_all (\<lambda>f. 3 \<le> length (latlon f)) frames
      \<and> list_all (\<lambda>f. 0 < latlon f ! 2) frames \<longrightarrow>
      (\<exists>c'. load_transform ev c fp0 = Inr c'
         \<and> default_camera_distances c' =
             map (\<lambda>f. latlon f ! 2
                    * (default_camera_distance c / Min (set (map (\<lambda>f. latlon f ! 2) frames))))
               frames
         \<and> (0 \<le> default_camera_distance c \<longrightarrow>
              Min (set (default_camera_distances c')) = default_camera_distance c)))
   \<and> default_camera_distance example_config
        / Min (set (map (\<lambda>f. latlon f ! 2) example_frames)) = 19 / 10
   \<and> map (\<lambda>f. latlon f ! 2) example_frames = [2, 4, 8]
   \<and> map_sum id default_camera_distances
        (load_transform (example_env example_frames) example_config (transform_fp example_config))
       = Inr [38 / 10, 76 / 10, 152 / 10]"
proof (intro conjI impI)
  assume h: "manifests ev (resolve_transform_fp ev fp0) = Some frames \<and> frames \<noteq> []
      \<and> list_all (\<lambda>f. 3 \<le> length (latlon f)) frames
      \<and> list_all (\<lambda>f. 0 < latlon f ! 2) frames"
  let ?ds = "map (\<lambda>f. latlon f ! 2) frames"
  let ?k = "default_camera_distance c / Min (set ?ds)"
  from h have ne: "?ds \<noteq> []" by simp
  from h have "list_all (\<lambda>d. 0 < d) ?ds" by (simp add: list_all_iff)
  with ne have pos: "0 < Min (set ?ds)" by (rule Min_pos_list)
  then have nz: "Min (set ?ds) \<noteq> 0" by simp
  note eq = load_transform_eq [of ev fp0 frames c, OF _ _ _ nz]
  have scaled: "map (\<lambda>d. d * ?k) ?ds = map (\<lambda>f. latlon f ! 2 * ?k) frames"
    by (simp add: comp_def)
  have mn: "0 \<le> default_camera_distance c \<longrightarrow>
      Min (set (map (\<lambda>d. d * ?k) ?ds)) = default_camera_distance c"
  proof
    assume r: "0 \<le> default_camera_distance c"
    with pos have "0 \<le> ?k" by simp
    with ne have "Min (set (map (\<lambda>d. d * ?k) ?ds)) = Min (set ?ds) * ?k" by (rule Min_scale)
    with nz show "Min (set (map (\<lambda>d. d * ?k) ?ds)) = default_camera_distance c" by simp
  qed
  show "\<exists>c'. load_transform ev c fp0 = Inr c'
         \<and> default_camera_distances c' = map (\<lambda>f. latlon f ! 2 * ?k) frames
         \<and> (0 \<le> default_camera_distance c \<longrightarrow>
              Min (set (default_camera_distances c')) = default_camera_distance c)"
    using h eq scaled mn by simp
next
  show "default_camera_distance example_config
        / Min (set (map (\<lambda>f. latlon f ! 2) example_frames)) = 19 / 10"
    by (simp add: example_config_def default_config_def example_frames_def)
next
  show "map (\<lambda>f. latlon f ! 2) example_frames = [2, 4, 8]"
    by (simp add: example_frames_def)
next
  show "map_sum id default_camera_distances
        (load_transform (example_env example_frames) example_config (transform_fp example_config))
       = Inr [38 / 10, 76 / 10, 152 / 10]"
    by (simp add: load_transform_example)
qed

theorem distance_normalization_witness:
  "manifests (example_env example_frames)
      (resolve_transform_fp (example_env example_frames) ''/data/transforms.json'') = Some example_frames
   \<and> example_frames \<noteq> []
   \<and> list_all (\<lambda>f. 3 \<le> length (latlon f)) example_frames
   \<and> list_all (\<lambda>f. 0 < latlon f ! 2) example_frames
   \<and> 0 \<le> default_camera_distance example_config
   \<and> (\<exists>c'. load_transform (example_env example_frames) example_config ''/data/transforms.json'' = Inr c'
         \<and> default_camera_distances c' = [38 / 10, 76 / 10, 152 / 10]
         \<and> Min (set (default_camera_distances c')) = 38 / 10)"
  using distance_normalization
    [of "example_env example_frames" "''/data/transforms.json''" example_frames example_config]
  by (simp add: resolve_transform_fp_def startswith_def example_env_def example_frames_def
      example_config_def default_config_def)


text \<open>
  Claim C7. For every frame of a manifest whose frames have their three pose entries,
  the loop of \<open>load_transform\<close> stores the elevation \<open>-latlon[0] + default_elevation_deg\<close>
  and takes the azimuth \<open>latlon[1]\<close> and the distance \<open>latlon[2]\<close> as they are; the
  elevation and the azimuth are those of the configuration that \<open>load_transform\<close>
  returns (the distances are rescaled after the loop).
\<close>

theorem manifest_unit_conversion:
  "list_all (\<lambda>f. 3 \<le> length (latlon f)) frames \<and> i < length frames \<longrightarrow>
     (\<exists>c1. read_frames image_dir frames
              (c\<lparr>image_paths := [], default_elevation_degs := [],
                 default_azimuth_degs := [], default_camera_distances := []\<rparr>) = Inr c1
        \<and> length (default_elevation_degs c1) = length frames
        \<and> length (default_azimuth_degs c1) = length frames
        \<and> length (default_camera_distances c1) = length frames
        \<and> default_elevation_degs c1 ! i = - (latlon (frames ! i) ! 0) + default_elevation_deg c
        \<and> default_azimuth_degs c1 ! i = latlon (frames ! i) ! 1
        \<and> default_camera_distances c1 ! i = latlon (frames ! i) ! 2)
     \<and> (\<forall>c'. manifests ev (resolve_transform_fp ev fp0) = Some frames
            \<and> load_transform ev c fp0 = Inr c' \<longrightarrow>
            default_elevation_degs c' ! i = - (latlon (frames ! i) ! 0) + default_elevation_deg c
            \<and> default_azimuth_degs c' ! i = latlon (frames ! i) ! 1)"
proof (intro impI conjI allI)
  assume h: "list_all (\<lambda>f. 3 \<le> length (latlon f)) frames \<and> i < length frames"
  then show "\<exists>c1. read_frames image_dir frames
              (c\<lparr>image_paths := [], default_elevation_degs := [],
                 default_azimuth_degs := [], default_camera_distances := []\<rparr>) = Inr c1
        \<and> length (default_elevation_degs c1) = length frames
        \<and> length (default_azimuth_degs c1) = length frames
        \<and> length (default_camera_distances c1) = length frames
        \<and> default_elevation_degs c1 ! i = - (latlon (frames ! i) ! 0) + default_elevation_deg c
        \<and> default_azimuth_degs c1 ! i = latlon (frames ! i) ! 1
        \<and> default_camera_distances c1 ! i = latlon (frames ! i) ! 2"
    by (simp add: read_frames_eq)
next
  fix c'
  assume h: "list_all (\<lambda>f. 3 \<le> length (latlon f)) frames \<and> i < length frames"
    and l: "manifests ev (resolve_transform_fp ev fp0) = Some frames
            \<and> load_transform ev c fp0 = Inr c'"
  from l load_transform_Inr [of ev c fp0 c']
  have "frames \<noteq> []" "Min (set (map (\<lambda>f. latlon f ! 2) frames)) \<noteq> 0" by auto
  with h l load_transform_eq [of ev fp0 frames c]
  have c': "default_elevation_degs c' = map (\<lambda>f. - (latlon f ! 0) + default_elevation_deg c) frames"
    "default_azimuth_degs c' = map (\<lambda>f. latlon f ! 1) frames"
    by auto
  from h c' show "default_elevation_degs c' ! i = - (latlon (frames ! i) ! 0) + default_elevation_deg c"
    by simp
  from h c' show "default_azimuth_degs c' ! i = latlon (frames ! i) ! 1"
    by simp
qed

theorem manifest_unit_conversion_witness:
  "list_all (\<lambda>f. 3 \<le> length (latlon f)) example_frames \<and> (1 :: nat) < length example_frames
   \<and> manifests (example_env example_frames)
        (resolve_transform_fp (example_env example_frames) ''/data/transforms.json'') = Some example_frames
   \<and> (\<exists>c1. read_frames ''/data'' example_frames
              (example_config\<lparr>image_paths := [], default_elevation_degs := [],
                 default_azimuth_degs := [], default_camera_distances := []\<rparr>) = Inr c1
        \<and> default_elevation_degs c1 ! 1 = - 10
        \<and> default_azimuth_degs c1 ! 1 = 90
        \<and> default_camera_distances c1 ! 1 = 4)
   \<and> (\<exists>c'. load_transform (example_env example_frames) example_config ''/data/transforms.json'' = Inr c'
        \<and> default_elevation_degs c' ! 1 = - 10
        \<and> default_azimuth_degs c' ! 1 = 90)"
proof -
  have h: "list_all (\<lambda>f. 3 \<le> length (latlon f)) example_frames \<and> (1 :: nat) < length example_frames"
    by (simp add: example_frames_def)
  have m: "manifests (example_env example_frames)
        (resolve_transform_fp (example_env example_frames) ''/data/transforms.json'') = Some example_frames"
    by (simp add: resolve_transform_fp_def startswith_def example_env_def)
  have v: "latlon (example_frames ! Suc 0) ! 0 = 10" "latlon (example_frames ! Suc 0) ! Suc 0 = 90"
    "latlon (example_frames ! Suc 0) ! 2 = 4" "default_elevation_deg example_config = 0"
    by (simp_all add: example_frames_def example_config_def default_config_def)
  have l: "\<exists>c'. load_transform (example_env example_frames) example_config ''/data/transforms.json'' = Inr c'"
    using load_transform_example by (simp add: example_config_def)
  show ?thesis
    using manifest_unit_conversion
      [of example_frames 1 "''/data''" example_config "example_env example_frames"
          "''/data/transforms.json''"] h m l
    by (auto simp: v)
qed

lemma compute_camera_positions_length:
  assumes "length els = length ds" "length azs = length ds"
  shows "length (compute_camera_positions els azs ds) = length ds"
  using assms by (simp add: compute_camera_positions_def deg_to_rad_def Let_def)

lemma compute_camera_positions_nth:
  assumes "length els = length ds" "length azs = length ds" "i < length ds"
  shows "compute_camera_positions els azs ds ! i =
     (ds ! i * cos (els ! i * pi / 180) * cos (azs ! i * pi / 180),
      ds ! i * cos (els ! i * pi / 180) * sin (azs ! i * pi / 180),
      ds ! i * sin (els ! i * pi / 180))"
  using assms by (simp add: compute_camera_positions_def deg_to_rad_def Let_def)

section \<open>What the stages of setup establish\<close>

lemma compute_c2w_three:
  assumes "length ps = 3"
  shows "compute_c2w ps = Inl RuntimeError"
  using assms by (simp add: compute_c2w_def compute_right_def compute_lookat_def Let_def)

lemma compute_c2w_rows:
  assumes "length ps \<noteq> 3"
  shows "compute_c2w ps = Inr (map camera_basis ps)"
proof -
  have "map (\<lambda>(r, u, l, p). c2w_matrix r u (vneg l) p)
          (zip (map (\<lambda>l. F_normalize (cross l world_up)) (map (\<lambda>p. F_normalize (vsub world_center p)) ps))
             (zip (map2 (\<lambda>r l. F_normalize (cross r l))
                     (map (\<lambda>l. F_normalize (cross l world_up))
                        (map (\<lambda>p. F_normalize (vsub world_center p)) ps))
                     (map (\<lambda>p. F_normalize (vsub world_center p)) ps))
                (zip (map (\<lambda>p. F_normalize (vsub world_center p)) ps) ps)))
        = map camera_basis ps"
    by (induction ps) (simp_all add: camera_basis_def Let_def)
  with assms show ?thesis
    by (simp add: compute_c2w_def compute_right_def compute_up_def compute_lookat_def Let_def)
qed

lemma compute_c2w_Inr:
  assumes "compute_c2w ps = Inr m"
  shows "length ps \<noteq> 3" and "m = map camera_basis ps"
proof -
  show n: "length ps \<noteq> 3"
  proof
    assume "length ps = 3"
    from compute_c2w_three [OF this] assms show False by simp
  qed
  from compute_c2w_rows [OF n] assms show "m = map camera_basis ps" by simp
qed

lemma set_rays_eq:
  assumes "height s \<noteq> 0"
  shows "set_rays op s =
     Inr (s\<lparr>heap := (heap s)(directions_unit_focal s :=
                 scale_xy (focal_length s) (heap s (directions_unit_focal s))),
            rays_o := fst (get_rays op (scale_xy (focal_length s) (heap s (directions_unit_focal s)))
                        (c2w s) (rays_noise_scale (cfg s))),
            rays_d := snd (get_rays op (scale_xy (focal_length s) (heap s (directions_unit_focal s)))
                        (c2w s) (rays_noise_scale (cfg s))),
            mvp_mtx := get_mvp_matrix op (c2w s)
                        (get_projection_matrix op (fovy s)
                           (real_of_int (width s) / real_of_int (height s)) (1 / 10) 100),
            trace := trace s @ [RaysSet (height s) (width s)]\<rparr>)"
  using assms by (simp add: set_rays_def Let_def)

lemma set_rays_Inr:
  assumes "set_rays op s = Inr s'"
  shows "height s \<noteq> 0"
  using assms by (auto simp: set_rays_def Let_def split: if_splits)

lemma load_companion_Inr:
  assumes "load_companion ev req suffix path w h acc = Inr acc'"
  shows "length acc' = length acc + (if req then 1 else 0)"
  using assms by (auto simp: load_companion_def Let_def split: if_splits)

lemma load_images_loop_Inr:
  "load_images_loop ev c w h paths (rgbs, masks, normals, depths) = Inr (rgbs', masks', normals', depths')
   \<Longrightarrow> length rgbs' = length rgbs + length paths"
proof (induction paths arbitrary: rgbs masks normals depths)
  case Nil
  then show ?case by simp
next
  case (Cons p ps)
  then show ?case
    by (force simp: Let_def split: if_splits sum.splits)
qed

lemma load_images_Inr:
  assumes "load_images ev s = Inr s'"
  shows "\<exists>rgbs masks normals depths.
     s' = s\<lparr>rgb := rgbs, mask_t := masks,
            depth := (if requires_depth (cfg s) then Some depths else None),
            normal := (if requires_normal (cfg s) then Some normals else None),
            trace := trace s @ [ImagesLoaded (height s) (width s)]\<rparr>
     \<and> length rgbs = length (image_paths (cfg s)) \<and> image_paths (cfg s) \<noteq> []"
proof -
  from assms obtain rgbs masks normals depths where
    l: "load_images_loop ev (cfg s) (width s) (height s) (image_paths (cfg s)) ([], [], [], [])
          = Inr (rgbs, masks, normals, depths)"
    by (auto simp: load_images_def split: sum.splits)
  from load_images_loop_Inr [OF l] have len: "length rgbs = length (image_paths (cfg s))" by simp
  from assms l have ne: "rgbs \<noteq> []"
    by (auto simp: load_images_def split: if_splits)
  from assms l ne have "s' = s\<lparr>rgb := rgbs, mask_t := masks,
            depth := (if requires_depth (cfg s) then Some depths else None),
            normal := (if requires_normal (cfg s) then Some normals else None),
            trace := trace s @ [ImagesLoaded (height s) (width s)]\<rparr>"
    by (simp add: load_images_def)
  with len ne show ?thesis by (metis length_0_conv)
qed

lemma load_companion_success:
  assumes "req \<longrightarrow> path_exists ev (str_replace ''_rgba.png'' suffix p)"
  shows "\<exists>r. load_companion ev req suffix p w h acc = Inr r"
  using assms by (simp add: load_companion_def Let_def)

lemma load_images_loop_success:
  assumes "list_all (path_exists ev) paths"
    and "requires_depth c \<longrightarrow>
           list_all (\<lambda>p. path_exists ev (str_replace ''_rgba.png'' ''_depth.png'' p)) paths"
    and "requires_normal c \<longrightarrow>
           list_all (\<lambda>p. path_exists ev (str_replace ''_rgba.png'' ''_normal.png'' p)) paths"
  shows "\<exists>r. load_images_loop ev c w h paths acc = Inr r"
  using assms
proof (induction paths arbitrary: acc)
  case Nil
  show ?case by (metis load_images_loop.simps(1))
next
  case (Cons p ps acc)
  obtain rgbs masks normals depths where acc: "acc = (rgbs, masks, normals, depths)"
    by (metis surj_pair)
  from Cons.prems obtain d1 where d1: "load_companion ev (requires_depth c) ''_depth.png'' p w h depths = Inr d1"
    using load_companion_success [of "requires_depth c" ev "''_depth.png''" p w h depths] by auto
  from Cons.prems obtain n1 where n1: "load_companion ev (requires_normal c) ''_normal.png'' p w h normals = Inr n1"
    using load_companion_success [of "requires_normal c" ev "''_normal.png''" p w h normals] by auto
  from Cons.prems have ex: "path_exists ev p" by simp
  from Cons.prems have IH: "\<And>a. \<exists>r. load_images_loop ev c w h ps a = Inr r"
    by (intro Cons.IH) simp_all
  from acc d1 n1 ex IH show ?case by (simp add: Let_def)
qed

lemma load_images_success:
  assumes "companions_exist ev (cfg s)" "image_paths (cfg s) \<noteq> []"
  shows "\<exists>s'. load_images ev s = Inr s'"
proof -
  from assms(1) obtain r where
    l: "load_images_loop ev (cfg s) (width s) (height s) (image_paths (cfg s)) ([], [], [], []) = Inr r"
    using load_images_loop_success
      [of ev "image_paths (cfg s)" "cfg s" "width s" "height s" "([], [], [], [])"]
    by (auto simp: companions_exist_def)
  obtain rgbs masks normals depths where r: "r = (rgbs, masks, normals, depths)"
    by (metis surj_pair)
  from l r load_images_loop_Inr [of ev "cfg s" "width s" "height s" "image_paths (cfg s)" "[]" "[]" "[]" "[]"]
  have "length rgbs = length (image_paths (cfg s))" by simp
  with assms(2) have "rgbs \<noteq> []" by auto
  with l r show ?thesis by (simp add: load_images_def)
qed


lemma setup_resolution_single:
  assumes "length (as_list (cfg_height c)) = 1" "length (as_list (cfg_width c)) = 1"
  shows "setup_resolution c =
     Inr (as_list (cfg_height c), as_list (cfg_width c), [- 1],
          if cfg_resolution_milestones c \<noteq> []
          then [Warn ''Ignoring resolution_milestones since height and width are not changing'']
          else [])"
  using assms by (simp add: setup_resolution_def Let_def)

lemma setup_resolution_multi:
  assumes "length (as_list (cfg_height c)) \<noteq> 1"
    and "length (as_list (cfg_height c)) = length (as_list (cfg_width c))"
    and "length (as_list (cfg_height c)) = length (cfg_resolution_milestones c) + 1"
  shows "setup_resolution c =
     Inr (as_list (cfg_height c), as_list (cfg_width c), - 1 # cfg_resolution_milestones c, [])"
  using assms by (simp add: setup_resolution_def Let_def)

lemma setup_resolution_mismatch:
  assumes "length (as_list (cfg_height c)) \<noteq> 1"
    and "length (as_list (cfg_height c)) \<noteq> length (cfg_resolution_milestones c) + 1"
  shows "setup_resolution c = Inl AssertionError"
  using assms by (simp add: setup_resolution_def Let_def)

lemma setup_resolution_Inr:
  assumes "setup_resolution c = Inr (hs, ws, ms, wn)"
  shows "hs = as_list (cfg_height c) \<and> ws = as_list (cfg_width c)
    \<and> length ws = length hs \<and> length ms = length hs \<and> hs \<noteq> [] \<and> hd ms = - 1"
  using assms by (auto simp: setup_resolution_def Let_def split: if_splits)

lemma initial_dataset_Inr:
  assumes "initial_dataset op c split = Inr s0"
  shows "\<exists>hs ws ms wn. setup_resolution c = Inr (hs, ws, ms, wn)
    \<and> cfg s0 = c \<and> heights s0 = hs \<and> widths s0 = ws \<and> resolution_milestones s0 = ms
    \<and> height s0 = hs ! 0 \<and> width s0 = ws ! 0 \<and> trace s0 = wn
    \<and> directions_unit_focals s0 = [0..<length hs] \<and> directions_unit_focal s0 = 0
    \<and> focal_lengths s0 = map (\<lambda>h. (1 / 2) * real_of_int h / tan ((1 / 2) * fovy s0)) hs
    \<and> focal_length s0 = focal_lengths s0 ! 0
    \<and> fovy s0 = default_fovy_deg c * pi / 180
    \<and> (\<forall>a<length hs. heap s0 a = get_ray_directions op (hs ! a) (ws ! a) 1)
    \<and> camera_positions s0 = compute_camera_positions (default_elevation_degs c)
          (default_azimuth_degs c) (default_camera_distances c)
    \<and> camera_positions s0 \<noteq> []
    \<and> compute_c2w (camera_positions s0) = Inr (c2w s0)
    \<and> light_position s0 = [hd (camera_positions s0)]
    \<and> elevation_degs s0 = default_elevation_degs c
    \<and> azimuth_degs s0 = default_azimuth_degs c
    \<and> camera_distances s0 = default_camera_distances c"
proof -
  from assms have ne: "compute_camera_positions (default_elevation_degs c)
          (default_azimuth_degs c) (default_camera_distances c) \<noteq> []"
    by (auto simp: initial_dataset_def Let_def split: if_splits)
  from assms ne obtain cw where cw: "compute_c2w (compute_camera_positions (default_elevation_degs c)
          (default_azimuth_degs c) (default_camera_distances c)) = Inr cw"
    by (cases "compute_c2w (compute_camera_positions (default_elevation_degs c)
          (default_azimuth_degs c) (default_camera_distances c))")
      (simp_all add: initial_dataset_def Let_def)
  from assms ne cw obtain hs ws ms wn where r: "setup_resolution c = Inr (hs, ws, ms, wn)"
    by (cases "setup_resolution c") (auto simp: initial_dataset_def Let_def)
  note rr = setup_resolution_Inr [OF r]
  then have i0: "py_index hs 0 = Inr (hs ! 0)" "py_index ws 0 = Inr (ws ! 0)"
    by (auto simp: py_index_def)
  let ?focals = "map (\<lambda>h. (1 / 2) * real_of_int h / tan ((1 / 2) * (default_fovy_deg c * pi / 180))) hs"
  let ?grids = "map2 (\<lambda>h w. get_ray_directions op h w 1) hs ws"
  from rr have hne: "hs \<noteq> []" "ws \<noteq> []" by auto
  then have i1: "py_index [0..<length ?grids] 0 = Inr 0" "py_index ?focals 0 = Inr (?focals ! 0)"
    by (simp_all add: py_index_def upt_conv_Cons)
  from rr have lw: "length ws = length hs" by blast
  have lg: "length ?grids = length hs" by (simp add: lw)
  from assms ne cw r i0 i1 have s0: "s0 = \<lparr>split_name = split, cfg = c,
        c2w = cw,
        camera_positions = compute_camera_positions (default_elevation_degs c)
            (default_azimuth_degs c) (default_camera_distances c),
        light_position = [hd (compute_camera_positions (default_elevation_degs c)
            (default_azimuth_degs c) (default_camera_distances c))],
        elevation_degs = default_elevation_degs c,
        azimuth_degs = default_azimuth_degs c,
        camera_distances = default_camera_distances c,
        fovy = default_fovy_deg c * pi / 180,
        heights = hs, widths = ws,
        resolution_milestones = ms,
        heap = (\<lambda>a. if a < length ?grids then ?grids ! a else []),
        directions_unit_focals = [0..<length ?grids],
        focal_lengths = ?focals,
        height = hs ! 0, width = ws ! 0,
        directions_unit_focal = 0, focal_length = ?focals ! 0,
        rays_o = [], rays_d = [], mvp_mtx = [],
        rgb = [], mask_t = [], depth = None, normal = None,
        prev_height = 0, trace = wn\<rparr>"
    by (simp add: initial_dataset_def Let_def)
  have hp: "\<forall>a<length hs. heap s0 a = get_ray_directions op (hs ! a) (ws ! a) 1"
    by (simp add: s0 lw)
  from r ne cw lg hp show ?thesis
    by (simp add: s0)
qed

lemma finish_setup_Inr:
  assumes "finish_setup op ev s0 = Inr s"
  shows "height s0 \<noteq> 0 \<and> image_paths (cfg s0) \<noteq> []
    \<and> cfg s = cfg s0 \<and> heights s = heights s0 \<and> widths s = widths s0
    \<and> resolution_milestones s = resolution_milestones s0
    \<and> height s = height s0 \<and> width s = width s0 \<and> prev_height s = height s0
    \<and> trace s = trace s0 @ [RaysSet (height s0) (width s0), ImagesLoaded (height s0) (width s0)]
    \<and> directions_unit_focals s = directions_unit_focals s0
    \<and> directions_unit_focal s = directions_unit_focal s0
    \<and> focal_lengths s = focal_lengths s0 \<and> focal_length s = focal_length s0
    \<and> fovy s = fovy s0
    \<and> heap s = (heap s0)(directions_unit_focal s0 :=
          scale_xy (focal_length s0) (heap s0 (directions_unit_focal s0)))
    \<and> camera_positions s = camera_positions s0 \<and> c2w s = c2w s0
    \<and> light_position s = light_position s0
    \<and> elevation_degs s = elevation_degs s0 \<and> azimuth_degs s = azimuth_degs s0
    \<and> camera_distances s = camera_distances s0
    \<and> length (rgb s) = length (image_paths (cfg s0))
    \<and> (depth s = None) = (\<not> requires_depth (cfg s0))
    \<and> (normal s = None) = (\<not> requires_normal (cfg s0))"
proof -
  from assms obtain s1 where s1: "set_rays op s0 = Inr s1"
    by (auto simp: finish_setup_def split: sum.splits)
  from set_rays_Inr [OF s1] have h: "height s0 \<noteq> 0" .
  note e1 = s1 [unfolded set_rays_eq [OF h, of op]]
  from assms s1 obtain s2 where s2: "load_images ev s1 = Inr s2" and s: "s = s2\<lparr>prev_height := height s2\<rparr>"
    by (auto simp: finish_setup_def split: sum.splits)
  from load_images_Inr [OF s2] obtain rgbs masks normals depths where
    e2: "s2 = s1\<lparr>rgb := rgbs, mask_t := masks,
            depth := (if requires_depth (cfg s1) then Some depths else None),
            normal := (if requires_normal (cfg s1) then Some normals else None),
            trace := trace s1 @ [ImagesLoaded (height s1) (width s1)]\<rparr>"
    and len: "length rgbs = length (image_paths (cfg s1))" "image_paths (cfg s1) \<noteq> []"
    by blast
  from e1 have s1': "s1 = s0\<lparr>heap := (heap s0)(directions_unit_focal s0 :=
                 scale_xy (focal_length s0) (heap s0 (directions_unit_focal s0))),
            rays_o := fst (get_rays op (scale_xy (focal_length s0) (heap s0 (directions_unit_focal s0)))
                        (c2w s0) (rays_noise_scale (cfg s0))),
            rays_d := snd (get_rays op (scale_xy (focal_length s0) (heap s0 (directions_unit_focal s0)))
                        (c2w s0) (rays_noise_scale (cfg s0))),
            mvp_mtx := get_mvp_matrix op (c2w s0)
                        (get_projection_matrix op (fovy s0)
                           (real_of_int (width s0) / real_of_int (height s0)) (1 / 10) 100),
            trace := trace s0 @ [RaysSet (height s0) (width s0)]\<rparr>"
    by simp
  have c1: "cfg s1 = cfg s0" by (simp add: s1')
  from h len show ?thesis
    unfolding s e2 c1 by (simp add: s1')
qed

lemma load_transform_fields:
  assumes "load_transform ev c fp0 = Inr c'"
  shows "cfg_height c' = cfg_height c \<and> cfg_width c' = cfg_width c
    \<and> cfg_resolution_milestones c' = cfg_resolution_milestones c
    \<and> requires_depth c' = requires_depth c \<and> requires_normal c' = requires_normal c
    \<and> length (default_elevation_degs c') = length (default_camera_distances c')
    \<and> length (default_azimuth_degs c') = length (default_camera_distances c')
    \<and> length (image_paths c') = length (default_camera_distances c')
    \<and> default_camera_distances c' \<noteq> []"
proof -
  from load_transform_Inr [OF assms] obtain frames where
    f: "manifests ev (resolve_transform_fp ev fp0) = Some frames" "frames \<noteq> []"
      "list_all (\<lambda>f. 3 \<le> length (latlon f)) frames"
      "Min (set (map (\<lambda>f. latlon f ! 2) frames)) \<noteq> 0"
    by blast
  from assms show ?thesis
    unfolding load_transform_eq [of ev fp0 frames c, OF f] using f(2) by auto
qed

lemma setup_dataset_Inr:
  assumes "setup_dataset op ev c0 split = Inr s"
  shows "\<exists>c s0. load_transform ev c0 (transform_fp c0) = Inr c
    \<and> initial_dataset op c split = Inr s0 \<and> finish_setup op ev s0 = Inr s"
  using assms by (auto simp: setup_dataset_def split: sum.splits)

lemma setup_dataset_mismatch:
  assumes "length (as_list (cfg_height c0)) \<noteq> 1"
    and "length (as_list (cfg_height c0)) \<noteq> length (cfg_resolution_milestones c0) + 1"
  shows "isl (setup_dataset op ev c0 split)"
proof (cases "load_transform ev c0 (transform_fp c0)")
  case (Inl e)
  then show ?thesis by (simp add: setup_dataset_def)
next
  case (Inr c)
  note lf = load_transform_fields [OF Inr]
  with assms have "setup_resolution c = Inl AssertionError"
    by (intro setup_resolution_mismatch) simp_all
  then have "isl (initial_dataset op c split)"
    by (simp add: initial_dataset_def Let_def split: sum.splits)
  with Inr show ?thesis
    by (auto simp: setup_dataset_def split: sum.splits)
qed

lemma initial_dataset_success:
  assumes "setup_resolution c = Inr r"
    and "default_camera_distances c \<noteq> []"
    and "length (default_elevation_degs c) = length (default_camera_distances c)"
    and "length (default_azimuth_degs c) = length (default_camera_distances c)"
    and "length (default_camera_distances c) \<noteq> 3"
  shows "\<exists>s0. initial_dataset op c split = Inr s0"
proof -
  obtain hs ws ms wn where r: "r = (hs, ws, ms, wn)" by (metis surj_pair)
  note rr = setup_resolution_Inr [OF assms(1) [unfolded r]]
  then have hne: "hs \<noteq> []" "ws \<noteq> []" by auto
  then have i0: "py_index hs 0 = Inr (hs ! 0)" "py_index ws 0 = Inr (ws ! 0)"
    by (auto simp: py_index_def)
  let ?focals = "map (\<lambda>h. (1 / 2) * real_of_int h / tan ((1 / 2) * (default_fovy_deg c * pi / 180))) hs"
  let ?grids = "map2 (\<lambda>h w. get_ray_directions op h w 1) hs ws"
  from hne have i1: "py_index [0..<length ?grids] 0 = Inr 0" "py_index ?focals 0 = Inr (?focals ! 0)"
    by (simp_all add: py_index_def upt_conv_Cons)
  have len: "length (compute_camera_positions (default_elevation_degs c)
          (default_azimuth_degs c) (default_camera_distances c)) = length (default_camera_distances c)"
    using assms(3,4) by (rule compute_camera_positions_length)
  with assms(2) have ne: "compute_camera_positions (default_elevation_degs c)
          (default_azimuth_degs c) (default_camera_distances c) \<noteq> []" by auto
  from len assms(5) have "length (compute_camera_positions (default_elevation_degs c)
          (default_azimuth_degs c) (default_camera_distances c)) \<noteq> 3" by simp
  note cw = compute_c2w_rows [OF this]
  from assms(1) r ne cw i0 i1 show ?thesis
    by (simp add: initial_dataset_def Let_def)
qed


lemma finish_setup_success:
  assumes "height s0 \<noteq> 0" "companions_exist ev (cfg s0)" "image_paths (cfg s0) \<noteq> []"
  shows "\<exists>s. finish_setup op ev s0 = Inr s"
proof -
  from set_rays_eq [OF assms(1), of op] obtain s1 where
    s1: "set_rays op s0 = Inr s1" and c1: "cfg s1 = cfg s0"
    by simp
  from assms c1 obtain s2 where "load_images ev s1 = Inr s2"
    using load_images_success [of ev s1] by auto
  with s1 show ?thesis by (simp add: finish_setup_def)
qed

lemma setup_dataset_success:
  assumes "load_transform ev c0 (transform_fp c0) = Inr c"
    and "setup_resolution c = Inr r"
    and "hd (as_list (cfg_height c)) \<noteq> 0"
    and "companions_exist ev c"
    and "length (default_camera_distances c) \<noteq> 3"
  shows "\<exists>s. setup_dataset op ev c0 split = Inr s"
proof -
  note lf = load_transform_fields [OF assms(1)]
  from lf assms(2,5) obtain s0 where s0: "initial_dataset op c split = Inr s0"
    using initial_dataset_success [of c r op split] by auto
  from initial_dataset_Inr [OF s0] obtain hs ws ms wn where
    i: "setup_resolution c = Inr (hs, ws, ms, wn)" "cfg s0 = c" "height s0 = hs ! 0"
    by blast
  from setup_resolution_Inr [OF i(1)] have "hs = as_list (cfg_height c)" "hs \<noteq> []" by auto
  with assms(3) i(3) have h: "height s0 \<noteq> 0" by (simp add: hd_conv_nth)
  from lf have "image_paths c \<noteq> []" by auto
  with h assms(4) i(2) obtain s where "finish_setup op ev s0 = Inr s"
    using finish_setup_success [of s0 ev op] by auto
  with assms(1) s0 show ?thesis by (simp add: setup_dataset_def)
qed


lemma setup_dataset_fields:
  assumes "setup_dataset op ev c0 split = Inr s"
  shows "\<exists>c hs ws ms wn. load_transform ev c0 (transform_fp c0) = Inr c
    \<and> setup_resolution c = Inr (hs, ws, ms, wn)
    \<and> cfg s = c \<and> heights s = hs \<and> widths s = ws \<and> resolution_milestones s = ms
    \<and> height s = hs ! 0 \<and> width s = ws ! 0 \<and> prev_height s = hs ! 0 \<and> hs ! 0 \<noteq> 0
    \<and> trace s = wn @ [RaysSet (hs ! 0) (ws ! 0), ImagesLoaded (hs ! 0) (ws ! 0)]
    \<and> directions_unit_focals s = [0..<length hs] \<and> directions_unit_focal s = 0
    \<and> camera_positions s = compute_camera_positions (default_elevation_degs c)
          (default_azimuth_degs c) (default_camera_distances c)
    \<and> compute_c2w (camera_positions s) = Inr (c2w s)
    \<and> elevation_degs s = default_elevation_degs c
    \<and> azimuth_degs s = default_azimuth_degs c
    \<and> camera_distances s = default_camera_distances c
    \<and> length (rgb s) = length (image_paths c)
    \<and> (depth s = None) = (\<not> requires_depth c)
    \<and> (normal s = None) = (\<not> requires_normal c)"
proof -
  from setup_dataset_Inr [OF assms] obtain c s0 where
    l: "load_transform ev c0 (transform_fp c0) = Inr c"
    and i: "initial_dataset op c split = Inr s0"
    and f: "finish_setup op ev s0 = Inr s"
    by blast
  from initial_dataset_Inr [OF i] obtain hs ws ms wn where
    r: "setup_resolution c = Inr (hs, ws, ms, wn)"
    and i': "cfg s0 = c" "heights s0 = hs" "widths s0 = ws" "resolution_milestones s0 = ms"
      "height s0 = hs ! 0" "width s0 = ws ! 0" "trace s0 = wn"
      "directions_unit_focals s0 = [0..<length hs]" "directions_unit_focal s0 = 0"
      "camera_positions s0 = compute_camera_positions (default_elevation_degs c)
          (default_azimuth_degs c) (default_camera_distances c)"
      "compute_c2w (camera_positions s0) = Inr (c2w s0)"
      "elevation_degs s0 = default_elevation_degs c"
      "azimuth_degs s0 = default_azimuth_degs c"
      "camera_distances s0 = default_camera_distances c"
    by blast
  note f' = finish_setup_Inr [OF f]
  from f' have e: "camera_positions s = camera_positions s0" "c2w s = c2w s0" by simp_all
  have cw: "compute_c2w (camera_positions s) = Inr (c2w s)"
    unfolding e by (rule i'(11))
  from l r cw show ?thesis
    using f' by (simp add: i'(1-10) i'(12-14))
qed

lemma setup_resolution_cong:
  assumes "cfg_height c' = cfg_height c" "cfg_width c' = cfg_width c"
    "cfg_resolution_milestones c' = cfg_resolution_milestones c"
  shows "setup_resolution c' = setup_resolution c"
  by (simp only: setup_resolution_def assms)

lemma example_load_transform:
  assumes "transform_fp c0 = ''/data/transforms.json''"
  shows "load_transform (example_env example_pair_frames) c0 (transform_fp c0) =
     Inr (c0\<lparr>image_paths := [''/data/a_rgba.png'', ''/data/b_rgba.png''],
            default_elevation_degs :=
              [default_elevation_deg c0, - 10 + default_elevation_deg c0],
            default_azimuth_degs := [0, 90],
            default_camera_distances :=
              [2 * (default_camera_distance c0 / 2), 4 * (default_camera_distance c0 / 2)]\<rparr>)"
  using assms
  by (simp add: load_transform_def resolve_transform_fp_def example_env_def example_pair_frames_def
      os_path_dirname_def os_path_join_def startswith_def py_index_def py_min_def Let_def)

lemma example_setup_success:
  assumes "transform_fp c0 = ''/data/transforms.json''"
    and "setup_resolution c0 = Inr r"
    and "hd (as_list (cfg_height c0)) \<noteq> 0"
  shows "\<exists>s. setup_dataset op (example_env example_pair_frames) c0 split = Inr s"
proof -
  note l = example_load_transform [OF assms(1)]
  show ?thesis
  proof (rule setup_dataset_success [OF l])
    show "setup_resolution (c0\<lparr>image_paths := [''/data/a_rgba.png'', ''/data/b_rgba.png''],
            default_elevation_degs :=
              [default_elevation_deg c0, - 10 + default_elevation_deg c0],
            default_azimuth_degs := [0, 90],
            default_camera_distances :=
              [2 * (default_camera_distance c0 / 2), 4 * (default_camera_distance c0 / 2)]\<rparr>) = Inr r"
      unfolding assms(2) [symmetric] by (rule setup_resolution_cong) simp_all
  qed (use assms(3) in \<open>simp_all add: companions_exist_def example_env_def\<close>)
qed

section \<open>Validation of tiers and milestones\<close>

text \<open>
  Claim C8. With more than one configured height, \<open>setup\<close> fails unless the number of
  heights is the number of milestones plus one, and when it succeeds the milestone list
  is \<open>-1\<close> followed by the configured milestones. With exactly one height and one
  width the validation succeeds whatever milestones are given, the milestone list is
  \<open>[-1]\<close>, and a warning is logged exactly when milestones were given; the warning does
  not make \<open>setup\<close> fail: it succeeds whenever the manifest loads with a number of
  frames other than three (with exactly three, line 98 raises), the height is not zero
  and the image files exist.
\<close>

theorem setup_validation:
  "(1 < length (as_list (cfg_height cm))
      \<and> length (as_list (cfg_height cm)) \<noteq> length (cfg_resolution_milestones cm) + 1 \<longrightarrow>
      isl (setup_dataset op ev cm split))
   \<and> (1 < length (as_list (cfg_height ct)) \<and> setup_dataset op ev ct split = Inr st \<longrightarrow>
      length (heights st) = length (cfg_resolution_milestones ct) + 1
      \<and> resolution_milestones st = - 1 # cfg_resolution_milestones ct)
   \<and> (length (as_list (cfg_height c1)) = 1 \<and> length (as_list (cfg_width c1)) = 1 \<longrightarrow>
      setup_resolution c1 =
        Inr (as_list (cfg_height c1), as_list (cfg_width c1), [- 1],
             if cfg_resolution_milestones c1 \<noteq> []
             then [Warn ''Ignoring resolution_milestones since height and width are not changing'']
             else [])
      \<and> (\<forall>s1. setup_dataset op ev c1 split = Inr s1 \<longrightarrow>
            resolution_milestones s1 = [- 1]
            \<and> trace s1 =
                (if cfg_resolution_milestones c1 \<noteq> []
                 then [Warn ''Ignoring resolution_milestones since height and width are not changing'']
                 else [])
                @ [RaysSet (height s1) (width s1), ImagesLoaded (height s1) (width s1)])
      \<and> (\<forall>c. load_transform ev c1 (transform_fp c1) = Inr c
               \<and> length (default_camera_distances c) \<noteq> 3
               \<and> hd (as_list (cfg_height c1)) \<noteq> 0 \<and> companions_exist ev c \<longrightarrow>
            isl (setup_dataset op ev c1 split) = False))"
proof (intro conjI impI allI)
  assume "1 < length (as_list (cfg_height cm))
      \<and> length (as_list (cfg_height cm)) \<noteq> length (cfg_resolution_milestones cm) + 1"
  then show "isl (setup_dataset op ev cm split)"
    by (intro setup_dataset_mismatch) simp_all
next
  assume h: "1 < length (as_list (cfg_height ct)) \<and> setup_dataset op ev ct split = Inr st"
  from setup_dataset_fields [of op ev ct split st] h obtain c hs ws ms wn where
    l: "load_transform ev ct (transform_fp ct) = Inr c"
    and r: "setup_resolution c = Inr (hs, ws, ms, wn)"
    and f: "heights st = hs" "resolution_milestones st = ms"
    by blast
  note lf = load_transform_fields [OF l]
  from r lf h have "hs = as_list (cfg_height ct) \<and> ms = - 1 # cfg_resolution_milestones ct
      \<and> length hs = length (cfg_resolution_milestones ct) + 1"
    by (auto simp: setup_resolution_def Let_def split: if_splits)
  with f show "length (heights st) = length (cfg_resolution_milestones ct) + 1"
    and "resolution_milestones st = - 1 # cfg_resolution_milestones ct"
    by auto
next
  assume h: "length (as_list (cfg_height c1)) = 1 \<and> length (as_list (cfg_width c1)) = 1"
  then show "setup_resolution c1 =
        Inr (as_list (cfg_height c1), as_list (cfg_width c1), [- 1],
             if cfg_resolution_milestones c1 \<noteq> []
             then [Warn ''Ignoring resolution_milestones since height and width are not changing'']
             else [])"
    by (simp add: setup_resolution_single)
next
  fix s1
  assume h: "length (as_list (cfg_height c1)) = 1 \<and> length (as_list (cfg_width c1)) = 1"
    and s: "setup_dataset op ev c1 split = Inr s1"
  from setup_dataset_fields [OF s] obtain c hs ws ms wn where
    l: "load_transform ev c1 (transform_fp c1) = Inr c"
    and r: "setup_resolution c = Inr (hs, ws, ms, wn)"
    and f: "resolution_milestones s1 = ms" "height s1 = hs ! 0" "width s1 = ws ! 0"
      "trace s1 = wn @ [RaysSet (hs ! 0) (ws ! 0), ImagesLoaded (hs ! 0) (ws ! 0)]"
    by blast
  note lf = load_transform_fields [OF l]
  from lf have "setup_resolution c = setup_resolution c1"
    by (intro setup_resolution_cong) simp_all
  with r h have "ms = [- 1]"
    "wn = (if cfg_resolution_milestones c1 \<noteq> []
           then [Warn ''Ignoring resolution_milestones since height and width are not changing'']
           else [])"
    by (simp_all add: setup_resolution_single)
  with f show "resolution_milestones s1 = [- 1]"
    and "trace s1 =
                (if cfg_resolution_milestones c1 \<noteq> []
                 then [Warn ''Ignoring resolution_milestones since height and width are not changing'']
                 else [])
                @ [RaysSet (height s1) (width s1), ImagesLoaded (height s1) (width s1)]"
    by simp_all
next
  fix c
  assume h: "length (as_list (cfg_height c1)) = 1 \<and> length (as_list (cfg_width c1)) = 1"
    and l: "load_transform ev c1 (transform_fp c1) = Inr c
               \<and> length (default_camera_distances c) \<noteq> 3
               \<and> hd (as_list (cfg_height c1)) \<noteq> 0 \<and> companions_exist ev c"
  note lf = load_transform_fields [of ev c1 "transform_fp c1" c]
  from l lf have eq: "setup_resolution c = setup_resolution c1"
    by (intro setup_resolution_cong) simp_all
  from h have "\<exists>r. setup_resolution c1 = Inr r" by (simp add: setup_resolution_single)
  with eq obtain r where r: "setup_resolution c = Inr r" by auto
  from l lf have "hd (as_list (cfg_height c)) \<noteq> 0" by simp
  with l r obtain s where "setup_dataset op ev c1 split = Inr s"
    using setup_dataset_success [of ev c1 c r op split] by auto
  then show "isl (setup_dataset op ev c1 split) = False" by simp
qed


theorem setup_validation_witness:
  "1 < length (as_list (cfg_height example_config_mismatch))
   \<and> length (as_list (cfg_height example_config_mismatch))
       \<noteq> length (cfg_resolution_milestones example_config_mismatch) + 1
   \<and> isl (setup_dataset example_ops (example_env example_pair_frames) example_config_mismatch ''train'')
   \<and> 1 < length (as_list (cfg_height example_config_tiers))
   \<and> (\<exists>st. setup_dataset example_ops (example_env example_pair_frames) example_config_tiers ''train'' = Inr st
         \<and> length (heights st) = 2 \<and> resolution_milestones st = [- 1, 100])
   \<and> length (as_list (cfg_height example_config_warn)) = 1
   \<and> length (as_list (cfg_width example_config_warn)) = 1
   \<and> hd (as_list (cfg_height example_config_warn)) \<noteq> 0
   \<and> (\<exists>c. load_transform (example_env example_pair_frames) example_config_warn
              (transform_fp example_config_warn) = Inr c
         \<and> length (default_camera_distances c) \<noteq> 3
         \<and> companions_exist (example_env example_pair_frames) c)
   \<and> (\<exists>s1. setup_dataset example_ops (example_env example_pair_frames) example_config_warn ''train'' = Inr s1
         \<and> resolution_milestones s1 = [- 1]
         \<and> trace s1 = [Warn ''Ignoring resolution_milestones since height and width are not changing'',
                        RaysSet (height s1) (width s1), ImagesLoaded (height s1) (width s1)])"
proof -
  have fp: "transform_fp example_config_tiers = ''/data/transforms.json''"
    "transform_fp example_config_warn = ''/data/transforms.json''"
    by (simp_all add: example_config_tiers_def example_config_warn_def example_config_def)
  have rt: "setup_resolution example_config_tiers = Inr ([2, 2], [2, 4], [- 1, 100], [])"
    by (simp add: setup_resolution_def as_list_def example_config_tiers_def example_config_def
        default_config_def Let_def)
  have rw: "\<exists>r. setup_resolution example_config_warn = Inr r"
    by (simp add: setup_resolution_def as_list_def example_config_warn_def example_config_def
        default_config_def Let_def)
  have ht: "hd (as_list (cfg_height example_config_tiers)) \<noteq> 0"
    and hw: "hd (as_list (cfg_height example_config_warn)) \<noteq> 0"
    by (simp_all add: as_list_def example_config_tiers_def example_config_warn_def
        example_config_def default_config_def)
  from example_setup_success [OF fp(1) rt ht] obtain st where
    st: "setup_dataset example_ops (example_env example_pair_frames) example_config_tiers ''train'' = Inr st"
    by blast
  from rw obtain r where "setup_resolution example_config_warn = Inr r" by blast
  from example_setup_success [OF fp(2) this hw] obtain s1 where
    s1: "setup_dataset example_ops (example_env example_pair_frames) example_config_warn ''train'' = Inr s1"
    by blast
  have lens: "1 < length (as_list (cfg_height example_config_mismatch))"
    "length (as_list (cfg_height example_config_mismatch))
       \<noteq> length (cfg_resolution_milestones example_config_mismatch) + 1"
    "1 < length (as_list (cfg_height example_config_tiers))"
    "cfg_resolution_milestones example_config_tiers = [100]"
    "length (as_list (cfg_height example_config_warn)) = 1"
    "length (as_list (cfg_width example_config_warn)) = 1"
    "cfg_resolution_milestones example_config_warn = [100]"
    by (simp_all add: as_list_def example_config_mismatch_def example_config_tiers_def
        example_config_warn_def example_config_def default_config_def)
  have l: "\<exists>c. load_transform (example_env example_pair_frames) example_config_warn
              (transform_fp example_config_warn) = Inr c
         \<and> length (default_camera_distances c) \<noteq> 3
         \<and> companions_exist (example_env example_pair_frames) c"
    unfolding example_load_transform [OF fp(2)]
    by (simp add: companions_exist_def example_env_def)
  show ?thesis
    using setup_validation [where cm = example_config_mismatch and op = example_ops
        and ev = "example_env example_pair_frames" and split = "''train''"
        and ct = example_config_tiers and st = st and ?c1.0 = example_config_warn]
      st s1 lens hw l
    by simp
qed

section \<open>Camera positions\<close>

text \<open>
  Claim C6. For elevation, azimuth and distance lists of one length, the position
  computed for entry \<open>i\<close> is
  \<open>(d cos(el) cos(az), d cos(el) sin(az), d sin(el))\<close> with \<open>el\<close> and \<open>az\<close> the degrees
  multiplied by \<open>pi / 180\<close>; the positions of a dataset that \<open>setup\<close> returned are
  related in this way to its elevations, azimuths and distances.
\<close>

theorem camera_positions_spherical:
  "(length els = length ds \<and> length azs = length ds \<and> i < length ds \<longrightarrow>
      compute_camera_positions els azs ds ! i =
        (ds ! i * cos (els ! i * pi / 180) * cos (azs ! i * pi / 180),
         ds ! i * cos (els ! i * pi / 180) * sin (azs ! i * pi / 180),
         ds ! i * sin (els ! i * pi / 180)))
   \<and> (setup_dataset op ev c0 split = Inr s \<and> k < length (camera_distances s) \<longrightarrow>
      length (camera_positions s) = length (camera_distances s)
      \<and> length (elevation_degs s) = length (camera_distances s)
      \<and> length (azimuth_degs s) = length (camera_distances s)
      \<and> camera_positions s ! k =
        (camera_distances s ! k * cos (elevation_degs s ! k * pi / 180)
           * cos (azimuth_degs s ! k * pi / 180),
         camera_distances s ! k * cos (elevation_degs s ! k * pi / 180)
           * sin (azimuth_degs s ! k * pi / 180),
         camera_distances s ! k * sin (elevation_degs s ! k * pi / 180)))"
proof (intro conjI impI)
  assume "length els = length ds \<and> length azs = length ds \<and> i < length ds"
  then show "compute_camera_positions els azs ds ! i =
        (ds ! i * cos (els ! i * pi / 180) * cos (azs ! i * pi / 180),
         ds ! i * cos (els ! i * pi / 180) * sin (azs ! i * pi / 180),
         ds ! i * sin (els ! i * pi / 180))"
    by (simp add: compute_camera_positions_nth)
next
  assume h: "setup_dataset op ev c0 split = Inr s \<and> k < length (camera_distances s)"
  from setup_dataset_fields [of op ev c0 split s] h obtain c where
    l: "load_transform ev c0 (transform_fp c0) = Inr c"
    and f: "camera_positions s = compute_camera_positions (default_elevation_degs c)
          (default_azimuth_degs c) (default_camera_distances c)"
      "elevation_degs s = default_elevation_degs c"
      "azimuth_degs s = default_azimuth_degs c"
      "camera_distances s = default_camera_distances c"
    by blast
  from load_transform_fields [OF l] have
    len: "length (default_elevation_degs c) = length (default_camera_distances c)"
      "length (default_azimuth_degs c) = length (default_camera_distances c)"
    by simp_all
  from len show "length (elevation_degs s) = length (camera_distances s)"
    and "length (azimuth_degs s) = length (camera_distances s)"
    by (simp_all add: f)
  from len show "length (camera_positions s) = length (camera_distances s)"
    by (simp add: f compute_camera_positions_length)
  from h have k: "k < length (default_camera_distances c)" by (simp add: f)
  show "camera_positions s ! k =
        (camera_distances s ! k * cos (elevation_degs s ! k * pi / 180)
           * cos (azimuth_degs s ! k * pi / 180),
         camera_distances s ! k * cos (elevation_degs s ! k * pi / 180)
           * sin (azimuth_degs s ! k * pi / 180),
         camera_distances s ! k * sin (elevation_degs s ! k * pi / 180))"
    unfolding f by (rule compute_camera_positions_nth [OF len k])
qed

theorem camera_positions_spherical_witness:
  "length [0, 90 :: real] = length [1, 2 :: real] \<and> length [0, 90 :: real] = length [1, 2 :: real]
   \<and> (1 :: nat) < length [1, 2 :: real]
   \<and> compute_camera_positions [0, 90] [0, 90] [1, 2] ! 1 = (0, 0, 2)
   \<and> (\<exists>s. setup_dataset example_ops (example_env example_pair_frames) example_config ''train'' = Inr s
        \<and> (0 :: nat) < length (camera_distances s)
        \<and> camera_distances s ! 0 = 38 / 10 \<and> elevation_degs s ! 0 = 0 \<and> azimuth_degs s ! 0 = 0
        \<and> camera_positions s ! 0 = (38 / 10, 0, 0))"
proof -
  have fp: "transform_fp example_config = ''/data/transforms.json''"
    by (simp add: example_config_def)
  have r: "\<exists>r. setup_resolution example_config = Inr r"
    by (simp add: setup_resolution_def as_list_def example_config_def default_config_def Let_def)
  then obtain r where r: "setup_resolution example_config = Inr r" by blast
  have h: "hd (as_list (cfg_height example_config)) \<noteq> 0"
    by (simp add: as_list_def example_config_def default_config_def)
  from example_setup_success [OF fp r h] obtain s where
    s: "setup_dataset example_ops (example_env example_pair_frames) example_config ''train'' = Inr s"
    by blast
  from setup_dataset_fields [OF s] have
    f: "elevation_degs s = [0, - 10]" "azimuth_degs s = [0, 90]"
      "camera_distances s = [38 / 10, 76 / 10]"
    unfolding example_load_transform [OF fp]
    by (auto simp: example_config_def default_config_def)
  show ?thesis
    using camera_positions_spherical [of "[0, 90]" "[1, 2]" "[0, 90]" 1 example_ops
        "example_env example_pair_frames" example_config "''train''" s 0] s
    by (simp add: f)
qed

section \<open>The step-update hook and the resolution tiers\<close>

lemma py_index_same_length:
  assumes "py_index xs i = Inr v" "length ys = length xs"
  shows "\<exists>w. py_index ys i = Inr w"
  using assms by (auto simp: py_index_def split: if_splits)

lemma update_step_skip:
  assumes "py_index (heights s) (size_ind (resolution_milestones s) g) = Inr h"
    and "h = prev_height s"
  shows "update_step op ev s e g w = Inr (s\<lparr>height := h\<rparr>)"
  using assms by (simp add: update_step_def Let_def)

lemma update_step_reload_Inr:
  assumes "py_index (heights s) (size_ind (resolution_milestones s) g) = Inr h"
    and "h \<noteq> prev_height s"
    and "update_step op ev s e g w = Inr s'"
  shows "\<exists>wd a f normals depths.
      py_index (widths s) (size_ind (resolution_milestones s) g) = Inr wd
    \<and> py_index (directions_unit_focals s) (size_ind (resolution_milestones s) g) = Inr a
    \<and> py_index (focal_lengths s) (size_ind (resolution_milestones s) g) = Inr f
    \<and> height s' = h \<and> width s' = wd \<and> prev_height s' = h
    \<and> directions_unit_focal s' = a \<and> focal_length s' = f
    \<and> heap s' = (heap s)(a := scale_xy f (heap s a))
    \<and> rays_o s' = fst (get_rays op (scale_xy f (heap s a)) (c2w s) (rays_noise_scale (cfg s)))
    \<and> rays_d s' = snd (get_rays op (scale_xy f (heap s a)) (c2w s) (rays_noise_scale (cfg s)))
    \<and> mvp_mtx s' = get_mvp_matrix op (c2w s)
          (get_projection_matrix op (fovy s) (real_of_int wd / real_of_int h) (1 / 10) 100)
    \<and> load_images_loop ev (cfg s) wd h (image_paths (cfg s)) ([], [], [], [])
        = Inr (rgb s', mask_t s', normals, depths)
    \<and> depth s' = (if requires_depth (cfg s) then Some depths else None)
    \<and> normal s' = (if requires_normal (cfg s) then Some normals else None)
    \<and> trace s' = trace s @ [Debug h wd, RaysSet h wd, ImagesLoaded h wd]
    \<and> heights s' = heights s \<and> widths s' = widths s
    \<and> resolution_milestones s' = resolution_milestones s
    \<and> directions_unit_focals s' = directions_unit_focals s
    \<and> focal_lengths s' = focal_lengths s \<and> cfg s' = cfg s \<and> c2w s' = c2w s"
proof -
  let ?i = "size_ind (resolution_milestones s) g"
  from assms obtain wd where wd: "py_index (widths s) ?i = Inr wd"
    by (auto simp: update_step_def Let_def split: sum.splits)
  from assms wd obtain a where a: "py_index (directions_unit_focals s) ?i = Inr a"
    by (auto simp: update_step_def Let_def split: sum.splits)
  from assms wd a obtain f where f: "py_index (focal_lengths s) ?i = Inr f"
    by (auto simp: update_step_def Let_def split: sum.splits)
  let ?s4 = "s\<lparr>height := h, prev_height := h, width := wd, directions_unit_focal := a,
                 focal_length := f, trace := trace s @ [Debug h wd]\<rparr>"
  from assms wd a f obtain s5 where s5: "set_rays op ?s4 = Inr s5"
    and l: "load_images ev s5 = Inr s'"
    by (auto simp: update_step_def Let_def split: sum.splits)
  from set_rays_Inr [OF s5] have "height ?s4 \<noteq> 0" .
  note e5 = s5 [unfolded set_rays_eq [OF this, of op]]
  from e5 have s5': "height s5 = h" "width s5 = wd" "prev_height s5 = h"
    "directions_unit_focal s5 = a" "focal_length s5 = f"
    "heap s5 = (heap s)(a := scale_xy f (heap s a))"
    "rays_o s5 = fst (get_rays op (scale_xy f (heap s a)) (c2w s) (rays_noise_scale (cfg s)))"
    "rays_d s5 = snd (get_rays op (scale_xy f (heap s a)) (c2w s) (rays_noise_scale (cfg s)))"
    "mvp_mtx s5 = get_mvp_matrix op (c2w s)
          (get_projection_matrix op (fovy s) (real_of_int wd / real_of_int h) (1 / 10) 100)"
    "trace s5 = trace s @ [Debug h wd, RaysSet h wd]"
    "heights s5 = heights s" "widths s5 = widths s"
    "resolution_milestones s5 = resolution_milestones s"
    "directions_unit_focals s5 = directions_unit_focals s"
    "focal_lengths s5 = focal_lengths s" "cfg s5 = cfg s" "c2w s5 = c2w s"
    by auto
  from l obtain rgbs masks normals depths where
    k: "load_images_loop ev (cfg s5) (width s5) (height s5) (image_paths (cfg s5)) ([], [], [], [])
          = Inr (rgbs, masks, normals, depths)"
    by (auto simp: load_images_def split: sum.splits)
  from l k have e: "s' = s5\<lparr>rgb := rgbs, mask_t := masks,
            depth := (if requires_depth (cfg s5) then Some depths else None),
            normal := (if requires_normal (cfg s5) then Some normals else None),
            trace := trace s5 @ [ImagesLoaded (height s5) (width s5)]\<rparr>"
    by (auto simp: load_images_def split: if_splits)
  from k have k': "load_images_loop ev (cfg s) wd h (image_paths (cfg s)) ([], [], [], [])
        = Inr (rgb s', mask_t s', normals, depths)"
    by (simp add: e s5')
  have d: "depth s' = (if requires_depth (cfg s) then Some depths else None)"
    "normal s' = (if requires_normal (cfg s) then Some normals else None)"
    by (simp_all add: e s5')
  have r: "height s' = h" "width s' = wd" "prev_height s' = h"
    "directions_unit_focal s' = a" "focal_length s' = f"
    "heap s' = (heap s)(a := scale_xy f (heap s a))"
    "rays_o s' = fst (get_rays op (scale_xy f (heap s a)) (c2w s) (rays_noise_scale (cfg s)))"
    "rays_d s' = snd (get_rays op (scale_xy f (heap s a)) (c2w s) (rays_noise_scale (cfg s)))"
    "mvp_mtx s' = get_mvp_matrix op (c2w s)
          (get_projection_matrix op (fovy s) (real_of_int wd / real_of_int h) (1 / 10) 100)"
    "trace s' = trace s @ [Debug h wd, RaysSet h wd, ImagesLoaded h wd]"
    "heights s' = heights s" "widths s' = widths s"
    "resolution_milestones s' = resolution_milestones s"
    "directions_unit_focals s' = directions_unit_focals s"
    "focal_lengths s' = focal_lengths s" "cfg s' = cfg s" "c2w s' = c2w s"
    by (simp_all add: e s5')
  from wd a f k' d r show ?thesis by blast
qed

lemma update_step_reload_success:
  assumes "py_index (heights s) (size_ind (resolution_milestones s) g) = Inr h"
    and "h \<noteq> prev_height s" "h \<noteq> 0"
    and "tiers_aligned s"
    and "companions_exist ev (cfg s)" "image_paths (cfg s) \<noteq> []"
  shows "\<exists>s'. update_step op ev s e g w = Inr s'"
proof -
  let ?i = "size_ind (resolution_milestones s) g"
  from assms(1,4) obtain wd where wd: "py_index (widths s) ?i = Inr wd"
    using py_index_same_length [of "heights s" ?i h "widths s"] by (auto simp: tiers_aligned_def)
  from assms(1,4) obtain a where a: "py_index (directions_unit_focals s) ?i = Inr a"
    using py_index_same_length [of "heights s" ?i h "directions_unit_focals s"]
    by (auto simp: tiers_aligned_def)
  from assms(1,4) obtain f where f: "py_index (focal_lengths s) ?i = Inr f"
    using py_index_same_length [of "heights s" ?i h "focal_lengths s"]
    by (auto simp: tiers_aligned_def)
  let ?s4 = "s\<lparr>height := h, prev_height := h, width := wd, directions_unit_focal := a,
                 focal_length := f, trace := trace s @ [Debug h wd]\<rparr>"
  from assms(3) have "height ?s4 \<noteq> 0" by simp
  from set_rays_eq [OF this, of op] obtain s5 where s5: "set_rays op ?s4 = Inr s5"
    and c5: "cfg s5 = cfg s"
    by simp
  from assms(5,6) c5 obtain s' where "load_images ev s5 = Inr s'"
    using load_images_success [of ev s5] by auto
  with assms(1,2) wd a f s5 show ?thesis
    by (simp add: update_step_def Let_def)
qed

lemma update_step_idempotent:
  assumes "update_step op ev s e g w = Inr s'"
  shows "update_step op ev s' e' g w' = Inr s'"
proof -
  let ?i = "size_ind (resolution_milestones s) g"
  from assms obtain h where h: "py_index (heights s) ?i = Inr h"
    by (auto simp: update_step_def Let_def split: sum.splits)
  show ?thesis
  proof (cases "h = prev_height s")
    case True
    with assms h have s': "s' = s\<lparr>height := h\<rparr>" by (simp add: update_step_skip)
    have "update_step op ev s' e' g w' = Inr (s'\<lparr>height := h\<rparr>)"
      using h True by (intro update_step_skip) (simp_all add: s')
    then show ?thesis by (simp add: s')
  next
    case False
    from update_step_reload_Inr [OF h False assms] have
      f: "height s' = h" "prev_height s' = h" "heights s' = heights s"
        "resolution_milestones s' = resolution_milestones s"
      by auto
    have "update_step op ev s' e' g w' = Inr (s'\<lparr>height := h\<rparr>)"
      using h by (intro update_step_skip) (simp_all add: f)
    with f(1) show ?thesis by simp
  qed
qed


lemma setup_dataset_aligned:
  assumes "setup_dataset op ev c0 split = Inr s"
  shows "tiers_aligned s \<and> image_paths (cfg s) \<noteq> []"
proof -
  from setup_dataset_Inr [OF assms] obtain c s0 where
    i: "initial_dataset op c split = Inr s0" and f: "finish_setup op ev s0 = Inr s"
    by blast
  from initial_dataset_Inr [OF i] obtain hs ws ms wn where
    r: "setup_resolution c = Inr (hs, ws, ms, wn)"
    and i': "heights s0 = hs" "widths s0 = ws" "directions_unit_focals s0 = [0..<length hs]"
      "focal_lengths s0 = map (\<lambda>h. (1 / 2) * real_of_int h / tan ((1 / 2) * fovy s0)) hs"
    by blast
  from setup_resolution_Inr [OF r] have lw: "length ws = length hs" by blast
  from finish_setup_Inr [OF f] have f': "heights s = heights s0" "widths s = widths s0"
    "directions_unit_focals s = directions_unit_focals s0" "focal_lengths s = focal_lengths s0"
    "image_paths (cfg s0) \<noteq> []" "cfg s = cfg s0"
    by simp_all
  show ?thesis
    unfolding tiers_aligned_def f' by (simp add: i' lw f'(5))
qed

lemma setup_dataset_tiers:
  assumes "setup_dataset op ev c0 split = Inr s"
  shows "focal_lengths s = map (\<lambda>h. (1 / 2) * real_of_int h / tan ((1 / 2) * fovy s)) (heights s)"
    and "fovy s = default_fovy_deg (cfg s) * pi / 180"
    and "directions_unit_focals s = [0..<length (heights s)]"
    and "\<forall>a. 0 < a \<and> a < length (heights s) \<longrightarrow>
           heap s a = get_ray_directions op (heights s ! a) (widths s ! a) 1"
    and "length (resolution_milestones s) = length (heights s)"
    and "hd (resolution_milestones s) = - 1"
    and "heights s \<noteq> []"
proof -
  from setup_dataset_Inr [OF assms] obtain c s0 where
    i: "initial_dataset op c split = Inr s0" and f: "finish_setup op ev s0 = Inr s"
    by blast
  from initial_dataset_Inr [OF i] obtain hs ws ms wn where
    r: "setup_resolution c = Inr (hs, ws, ms, wn)"
    and i': "cfg s0 = c" "heights s0 = hs" "widths s0 = ws" "resolution_milestones s0 = ms"
      "directions_unit_focals s0 = [0..<length hs]" "directions_unit_focal s0 = 0"
      "focal_lengths s0 = map (\<lambda>h. (1 / 2) * real_of_int h / tan ((1 / 2) * fovy s0)) hs"
      "fovy s0 = default_fovy_deg c * pi / 180"
      "\<forall>a<length hs. heap s0 a = get_ray_directions op (hs ! a) (ws ! a) 1"
    by blast
  note q0 = setup_resolution_Inr [OF r]
  from q0 have q1: "length ms = length hs" by blast
  from q0 have q2: "hs \<noteq> []" by blast
  from q0 have q3: "hd ms = - 1" by blast
  note q = q1 q2 q3
  from finish_setup_Inr [OF f] have f': "cfg s = cfg s0" "heights s = heights s0"
    "widths s = widths s0" "resolution_milestones s = resolution_milestones s0"
    "directions_unit_focals s = directions_unit_focals s0"
    "focal_lengths s = focal_lengths s0" "fovy s = fovy s0"
    "heap s = (heap s0)(directions_unit_focal s0 :=
          scale_xy (focal_length s0) (heap s0 (directions_unit_focal s0)))"
    by simp_all
  show "focal_lengths s = map (\<lambda>h. (1 / 2) * real_of_int h / tan ((1 / 2) * fovy s)) (heights s)"
    by (simp add: f' i'(2,7))
  show "fovy s = default_fovy_deg (cfg s) * pi / 180"
    by (simp add: f' i'(1,8))
  show "directions_unit_focals s = [0..<length (heights s)]"
    by (simp add: f' i'(2,5))
  show "\<forall>a. 0 < a \<and> a < length (heights s) \<longrightarrow>
           heap s a = get_ray_directions op (heights s ! a) (widths s ! a) 1"
    using i'(9) by (simp add: f' i'(2,3,6))
  show "length (resolution_milestones s) = length (heights s)"
    by (simp add: f' i'(2,4) q)
  show "hd (resolution_milestones s) = - 1"
    by (simp add: f' i'(4) q)
  show "heights s \<noteq> []"
    by (simp add: f' i'(2) q)
qed

lemma example_dataset_setup:
  assumes "transform_fp c0 = ''/data/transforms.json''"
    and "setup_resolution c0 = Inr (hs, ws, ms, wn)"
    and "hd (as_list (cfg_height c0)) \<noteq> 0"
  shows "setup_dataset example_ops (example_env example_pair_frames) c0 ''train'' = Inr (example_dataset c0)"
    and "heights (example_dataset c0) = hs" and "widths (example_dataset c0) = ws"
    and "resolution_milestones (example_dataset c0) = ms"
    and "height (example_dataset c0) = hs ! 0" and "width (example_dataset c0) = ws ! 0"
    and "prev_height (example_dataset c0) = hs ! 0"
    and "trace (example_dataset c0) = wn @ [RaysSet (hs ! 0) (ws ! 0), ImagesLoaded (hs ! 0) (ws ! 0)]"
    and "tiers_aligned (example_dataset c0)"
    and "image_paths (cfg (example_dataset c0)) \<noteq> []"
    and "companions_exist (example_env example_pair_frames) (cfg (example_dataset c0))"
proof -
  from example_setup_success [OF assms, of example_ops "''train''"] obtain s where
    s: "setup_dataset example_ops (example_env example_pair_frames) c0 ''train'' = Inr s"
    by blast
  then have e: "example_dataset c0 = s" by (simp add: example_dataset_def)
  from s e show "setup_dataset example_ops (example_env example_pair_frames) c0 ''train'' = Inr (example_dataset c0)"
    by simp
  from setup_dataset_fields [OF s] obtain c hs' ws' ms' wn' where
    l: "load_transform (example_env example_pair_frames) c0 (transform_fp c0) = Inr c"
    and r: "setup_resolution c = Inr (hs', ws', ms', wn')"
    and f: "cfg s = c" "heights s = hs'" "widths s = ws'" "resolution_milestones s = ms'"
      "height s = hs' ! 0" "width s = ws' ! 0" "prev_height s = hs' ! 0"
      "trace s = wn' @ [RaysSet (hs' ! 0) (ws' ! 0), ImagesLoaded (hs' ! 0) (ws' ! 0)]"
    by blast
  from load_transform_fields [OF l] have "setup_resolution c = setup_resolution c0"
    by (intro setup_resolution_cong) simp_all
  with r assms(2) have eq: "hs' = hs" "ws' = ws" "ms' = ms" "wn' = wn" by simp_all
  from f eq show "heights (example_dataset c0) = hs" "widths (example_dataset c0) = ws"
    "resolution_milestones (example_dataset c0) = ms"
    "height (example_dataset c0) = hs ! 0" "width (example_dataset c0) = ws ! 0"
    "prev_height (example_dataset c0) = hs ! 0"
    "trace (example_dataset c0) = wn @ [RaysSet (hs ! 0) (ws ! 0), ImagesLoaded (hs ! 0) (ws ! 0)]"
    by (simp_all add: e)
  from setup_dataset_aligned [OF s] show "tiers_aligned (example_dataset c0)"
    "image_paths (cfg (example_dataset c0)) \<noteq> []"
    by (simp_all add: e)
  show "companions_exist (example_env example_pair_frames) (cfg (example_dataset c0))"
    by (simp add: companions_exist_def example_env_def list_all_iff)
qed

lemma example_dataset_poses:
  assumes "setup_dataset example_ops (example_env example_pair_frames) c0 ''train'' = Inr (example_dataset c0)"
    and "transform_fp c0 = ''/data/transforms.json''"
  shows "elevation_degs (example_dataset c0)
      = [default_elevation_deg c0, - 10 + default_elevation_deg c0]"
    and "azimuth_degs (example_dataset c0) = [0, 90]"
    and "camera_distances (example_dataset c0)
      = [2 * (default_camera_distance c0 / 2), 4 * (default_camera_distance c0 / 2)]"
    and "requires_depth (cfg (example_dataset c0)) = requires_depth c0"
    and "requires_normal (cfg (example_dataset c0)) = requires_normal c0"
    and "image_paths (cfg (example_dataset c0))
      = [''/data/a_rgba.png'', ''/data/b_rgba.png'']"
    and "default_fovy_deg (cfg (example_dataset c0)) = default_fovy_deg c0"
    and "rays_noise_scale (cfg (example_dataset c0)) = rays_noise_scale c0"
  using setup_dataset_fields [OF assms(1)]
  unfolding example_load_transform [OF assms(2)]
  by auto

lemma example_dataset_cameras:
  assumes "setup_dataset example_ops (example_env example_pair_frames) c0 ''train'' = Inr (example_dataset c0)"
    and "transform_fp c0 = ''/data/transforms.json''"
  shows "length (camera_positions (example_dataset c0)) = 2"
    and "length (c2w (example_dataset c0)) = 2"
proof -
  let ?d = "example_dataset c0"
  from setup_dataset_fields [OF assms(1)] have
    cp: "camera_positions ?d
           = compute_camera_positions (elevation_degs ?d) (azimuth_degs ?d) (camera_distances ?d)"
    and cw: "compute_c2w (camera_positions ?d) = Inr (c2w ?d)"
    by auto
  note p = example_dataset_poses(1-3) [OF assms]
  have "length (compute_camera_positions (elevation_degs ?d) (azimuth_degs ?d) (camera_distances ?d))
      = length (camera_distances ?d)"
    by (rule compute_camera_positions_length) (simp_all add: p)
  then have "length (camera_positions ?d) = length (camera_distances ?d)"
    by (subst cp)
  then show n: "length (camera_positions ?d) = 2"
    by (simp add: p(3))
  from compute_c2w_Inr(2) [OF cw] n show "length (c2w ?d) = 2"
    by simp
qed

lemma example_config_tiers_facts:
  "transform_fp example_config_tiers = ''/data/transforms.json''"
  "setup_resolution example_config_tiers = Inr ([2, 2], [2, 4], [- 1, 100], [])"
  "hd (as_list (cfg_height example_config_tiers)) \<noteq> 0"
  by (simp_all add: setup_resolution_def as_list_def example_config_tiers_def example_config_def
      default_config_def Let_def)

lemma example_config_grow_facts:
  "transform_fp example_config_grow = ''/data/transforms.json''"
  "setup_resolution example_config_grow = Inr ([2, 4], [2, 4], [- 1, 100], [])"
  "hd (as_list (cfg_height example_config_grow)) \<noteq> 0"
  by (simp_all add: setup_resolution_def as_list_def example_config_grow_def example_config_def
      default_config_def Let_def)


lemma size_ind_examples:
  "size_ind [- 1, 100] 0 = 0" "size_ind [- 1, 100] 100 = 1"
  "size_ind [- 1, 100, 500] (- 5) = - 1"
  "size_ind [- 1, 100, 500] 0 = 0" "size_ind [- 1, 100, 500] 50 = 0"
  "size_ind [- 1, 100, 500] 100 = 1" "size_ind [- 1, 100, 500] 300 = 1"
  "size_ind [- 1, 100, 500] 500 = 2" "size_ind [- 1, 100, 500] 900 = 2"
  by (simp_all add: size_ind_def bisect_right_def bisect_loop.simps)

text \<open>
  Claim C4 says that the rays are recomputed and the images reloaded whenever the
  resolution of the selected tier, height and width, differs from the previous one. The
  method compares heights only. With the heights \<open>[2, 2]\<close>, the widths \<open>[2, 4]\<close> and the
  milestone \<open>100\<close>, the dataset is set up from two frames at \<open>2 \<times> 2\<close>; step \<open>100\<close>
  selects the tier \<open>2 \<times> 4\<close>, and \<open>update_step_\<close> returns the dataset as it was: the
  width is still \<open>2\<close> and nothing was recomputed or reloaded.
\<close>

theorem update_step_resolution_counterexample:
  "setup_dataset example_ops (example_env example_pair_frames) example_config_tiers ''train''
     = Inr (example_dataset example_config_tiers)
   \<and> length (camera_positions (example_dataset example_config_tiers)) = 2
   \<and> height (example_dataset example_config_tiers) = 2
   \<and> width (example_dataset example_config_tiers) = 2
   \<and> py_index (heights (example_dataset example_config_tiers))
        (size_ind (resolution_milestones (example_dataset example_config_tiers)) 100) = Inr 2
   \<and> py_index (widths (example_dataset example_config_tiers))
        (size_ind (resolution_milestones (example_dataset example_config_tiers)) 100) = Inr 4
   \<and> update_step example_ops (example_env example_pair_frames)
        (example_dataset example_config_tiers) 0 100 False
      = Inr (example_dataset example_config_tiers)"
proof -
  note f = example_dataset_setup [OF example_config_tiers_facts]
  note n = example_dataset_cameras(1) [OF f(1) example_config_tiers_facts(1)]
  have h: "py_index (heights (example_dataset example_config_tiers))
        (size_ind (resolution_milestones (example_dataset example_config_tiers)) 100) = Inr 2"
    and w: "py_index (widths (example_dataset example_config_tiers))
        (size_ind (resolution_milestones (example_dataset example_config_tiers)) 100) = Inr 4"
    by (simp_all add: f size_ind_examples py_index_def)
  have "update_step example_ops (example_env example_pair_frames)
        (example_dataset example_config_tiers) 0 100 False
      = Inr ((example_dataset example_config_tiers)\<lparr>height := 2\<rparr>)"
    using h by (rule update_step_skip) (simp add: f)
  moreover have "(example_dataset example_config_tiers)\<lparr>height := 2\<rparr> = example_dataset example_config_tiers"
    using f(5) by simp
  ultimately show ?thesis using f(1) h w n by (simp add: f)
qed

text \<open>
  Claim C4, amended. When the height of the selected tier equals \<open>prev_height\<close>,
  \<open>update_step_\<close> changes nothing but the attribute \<open>height\<close>, to the same value: no rays
  are computed and no image is loaded. A second call with the same step returns the
  dataset unchanged. When the height of the selected tier differs from \<open>prev_height\<close>,
  every successful call has taken the width, the cached grid and the focal length of the
  selected tier, has divided that grid by that focal length in the store, has computed
  the rays from the result and the projection from the new width and height, has loaded
  the images at the new width and height, and has logged these three steps once each.
  The call succeeds when that height is not zero, the per-tier lists have one length and
  the image files exist.
\<close>

theorem update_step_gate:
  "(py_index (heights s) (size_ind (resolution_milestones s) ga) = Inr ha \<and> ha = prev_height s \<longrightarrow>
      update_step op ev s e ga w = Inr (s\<lparr>height := ha\<rparr>))
   \<and> (update_step op ev s e g w = Inr s1 \<longrightarrow> update_step op ev s1 e' g w' = Inr s1)
   \<and> (py_index (heights s) (size_ind (resolution_milestones s) gb) = Inr hb \<and> hb \<noteq> prev_height s \<longrightarrow>
      (\<forall>s'. update_step op ev s e gb w = Inr s' \<longrightarrow>
         (\<exists>wd a f normals depths.
              py_index (widths s) (size_ind (resolution_milestones s) gb) = Inr wd
            \<and> py_index (directions_unit_focals s) (size_ind (resolution_milestones s) gb) = Inr a
            \<and> py_index (focal_lengths s) (size_ind (resolution_milestones s) gb) = Inr f
            \<and> height s' = hb \<and> width s' = wd \<and> prev_height s' = hb
            \<and> directions_unit_focal s' = a \<and> focal_length s' = f
            \<and> heap s' = (heap s)(a := scale_xy f (heap s a))
            \<and> rays_o s' = fst (get_rays op (scale_xy f (heap s a)) (c2w s) (rays_noise_scale (cfg s)))
            \<and> rays_d s' = snd (get_rays op (scale_xy f (heap s a)) (c2w s) (rays_noise_scale (cfg s)))
            \<and> mvp_mtx s' = get_mvp_matrix op (c2w s)
                  (get_projection_matrix op (fovy s) (real_of_int wd / real_of_int hb) (1 / 10) 100)
            \<and> load_images_loop ev (cfg s) wd hb (image_paths (cfg s)) ([], [], [], [])
                = Inr (rgb s', mask_t s', normals, depths)
            \<and> depth s' = (if requires_depth (cfg s) then Some depths else None)
            \<and> normal s' = (if requires_normal (cfg s) then Some normals else None)
            \<and> trace s' = trace s @ [Debug hb wd, RaysSet hb wd, ImagesLoaded hb wd]))
      \<and> (hb \<noteq> 0 \<and> tiers_aligned s \<and> companions_exist ev (cfg s) \<and> image_paths (cfg s) \<noteq> [] \<longrightarrow>
           (\<exists>s'. update_step op ev s e gb w = Inr s')))"
proof (intro conjI impI allI)
  assume "py_index (heights s) (size_ind (resolution_milestones s) ga) = Inr ha \<and> ha = prev_height s"
  then show "update_step op ev s e ga w = Inr (s\<lparr>height := ha\<rparr>)"
    by (simp add: update_step_skip)
next
  assume "update_step op ev s e g w = Inr s1"
  then show "update_step op ev s1 e' g w' = Inr s1" by (rule update_step_idempotent)
next
  fix s'
  assume h: "py_index (heights s) (size_ind (resolution_milestones s) gb) = Inr hb \<and> hb \<noteq> prev_height s"
    and u: "update_step op ev s e gb w = Inr s'"
  from h have h1: "py_index (heights s) (size_ind (resolution_milestones s) gb) = Inr hb"
    and h2: "hb \<noteq> prev_height s" by simp_all
  from update_step_reload_Inr [OF h1 h2 u] obtain wd a f normals depths where
    r: "py_index (widths s) (size_ind (resolution_milestones s) gb) = Inr wd"
      "py_index (directions_unit_focals s) (size_ind (resolution_milestones s) gb) = Inr a"
      "py_index (focal_lengths s) (size_ind (resolution_milestones s) gb) = Inr f"
      "height s' = hb" "width s' = wd" "prev_height s' = hb"
      "directions_unit_focal s' = a" "focal_length s' = f"
      "heap s' = (heap s)(a := scale_xy f (heap s a))"
      "rays_o s' = fst (get_rays op (scale_xy f (heap s a)) (c2w s) (rays_noise_scale (cfg s)))"
      "rays_d s' = snd (get_rays op (scale_xy f (heap s a)) (c2w s) (rays_noise_scale (cfg s)))"
      "mvp_mtx s' = get_mvp_matrix op (c2w s)
                  (get_projection_matrix op (fovy s) (real_of_int wd / real_of_int hb) (1 / 10) 100)"
      "load_images_loop ev (cfg s) wd hb (image_paths (cfg s)) ([], [], [], [])
                = Inr (rgb s', mask_t s', normals, depths)"
      "depth s' = (if requires_depth (cfg s) then Some depths else None)"
      "normal s' = (if requires_normal (cfg s) then Some normals else None)"
      "trace s' = trace s @ [Debug hb wd, RaysSet hb wd, ImagesLoaded hb wd]"
    by (elim exE conjE)
  show "\<exists>wd a f normals depths.
              py_index (widths s) (size_ind (resolution_milestones s) gb) = Inr wd
            \<and> py_index (directions_unit_focals s) (size_ind (resolution_milestones s) gb) = Inr a
            \<and> py_index (focal_lengths s) (size_ind (resolution_milestones s) gb) = Inr f
            \<and> height s' = hb \<and> width s' = wd \<and> prev_height s' = hb
            \<and> directions_unit_focal s' = a \<and> focal_length s' = f
            \<and> heap s' = (heap s)(a := scale_xy f (heap s a))
            \<and> rays_o s' = fst (get_rays op (scale_xy f (heap s a)) (c2w s) (rays_noise_scale (cfg s)))
            \<and> rays_d s' = snd (get_rays op (scale_xy f (heap s a)) (c2w s) (rays_noise_scale (cfg s)))
            \<and> mvp_mtx s' = get_mvp_matrix op (c2w s)
                  (get_projection_matrix op (fovy s) (real_of_int wd / real_of_int hb) (1 / 10) 100)
            \<and> load_images_loop ev (cfg s) wd hb (image_paths (cfg s)) ([], [], [], [])
                = Inr (rgb s', mask_t s', normals, depths)
            \<and> depth s' = (if requires_depth (cfg s) then Some depths else None)
            \<and> normal s' = (if requires_normal (cfg s) then Some normals else None)
            \<and> trace s' = trace s @ [Debug hb wd, RaysSet hb wd, ImagesLoaded hb wd]"
    by (intro exI [of _ wd] exI [of _ a] exI [of _ f] exI [of _ normals] exI [of _ depths] conjI r)
next
  assume h: "py_index (heights s) (size_ind (resolution_milestones s) gb) = Inr hb \<and> hb \<noteq> prev_height s"
    and c: "hb \<noteq> 0 \<and> tiers_aligned s \<and> companions_exist ev (cfg s) \<and> image_paths (cfg s) \<noteq> []"
  then show "\<exists>s'. update_step op ev s e gb w = Inr s'"
    by (intro update_step_reload_success [of s gb hb]) simp_all
qed

lemma example_dataset_grow:
  "py_index (heights (example_dataset example_config_grow))
      (size_ind (resolution_milestones (example_dataset example_config_grow)) 0) = Inr 2"
  "py_index (heights (example_dataset example_config_grow))
      (size_ind (resolution_milestones (example_dataset example_config_grow)) 100) = Inr 4"
  "py_index (widths (example_dataset example_config_grow))
      (size_ind (resolution_milestones (example_dataset example_config_grow)) 100) = Inr 4"
  "py_index (directions_unit_focals (example_dataset example_config_grow))
      (size_ind (resolution_milestones (example_dataset example_config_grow)) 100) = Inr 1"
  "py_index (focal_lengths (example_dataset example_config_grow))
      (size_ind (resolution_milestones (example_dataset example_config_grow)) 100) = Inr 2"
  "heap (example_dataset example_config_grow) 1 = get_ray_directions example_ops 4 4 1"
  "length (c2w (example_dataset example_config_grow)) = 2"
  "prev_height (example_dataset example_config_grow) = 2"
  "height (example_dataset example_config_grow) = 2"
  "trace (example_dataset example_config_grow) = [RaysSet 2 2, ImagesLoaded 2 2]"
proof -
  let ?s = "example_dataset example_config_grow"
  note f = example_dataset_setup [OF example_config_grow_facts]
  note t = setup_dataset_tiers [OF f(1)]
  note p = example_dataset_poses [OF f(1) example_config_grow_facts(1)]
  have "default_fovy_deg example_config_grow = 90"
    by (simp add: example_config_grow_def)
  then have fv: "fovy ?s = pi / 2"
    unfolding t(2) p(7) by simp
  have fl: "focal_lengths ?s = [1, 2]"
    unfolding t(1) fv by (simp add: f tan_45)
  show "py_index (heights ?s) (size_ind (resolution_milestones ?s) 0) = Inr 2"
    "py_index (heights ?s) (size_ind (resolution_milestones ?s) 100) = Inr 4"
    "py_index (widths ?s) (size_ind (resolution_milestones ?s) 100) = Inr 4"
    by (simp_all add: f size_ind_examples py_index_def)
  show "py_index (directions_unit_focals ?s) (size_ind (resolution_milestones ?s) 100) = Inr 1"
    unfolding t(3) by (simp add: f size_ind_examples py_index_def)
  show "py_index (focal_lengths ?s) (size_ind (resolution_milestones ?s) 100) = Inr 2"
    unfolding fl by (simp add: f size_ind_examples py_index_def)
  from t(4) have "heap ?s 1 = get_ray_directions example_ops (heights ?s ! 1) (widths ?s ! 1) 1"
    by (simp add: f)
  then show "heap ?s 1 = get_ray_directions example_ops 4 4 1"
    by (simp add: f)
  show "length (c2w ?s) = 2"
    by (rule example_dataset_cameras(2) [OF f(1) example_config_grow_facts(1)])
  show "prev_height ?s = 2" "height ?s = 2" "trace ?s = [RaysSet 2 2, ImagesLoaded 2 2]"
    by (simp_all add: f)
qed

theorem update_step_gate_witness:
  "py_index (heights (example_dataset example_config_grow))
      (size_ind (resolution_milestones (example_dataset example_config_grow)) 0) = Inr 2
   \<and> 2 = prev_height (example_dataset example_config_grow)
   \<and> update_step example_ops (example_env example_pair_frames) (example_dataset example_config_grow) 0 0 False
       = Inr (example_dataset example_config_grow)
   \<and> py_index (heights (example_dataset example_config_grow))
      (size_ind (resolution_milestones (example_dataset example_config_grow)) 100) = Inr 4
   \<and> 4 \<noteq> prev_height (example_dataset example_config_grow) \<and> (4 :: int) \<noteq> 0
   \<and> tiers_aligned (example_dataset example_config_grow)
   \<and> companions_exist (example_env example_pair_frames) (cfg (example_dataset example_config_grow))
   \<and> image_paths (cfg (example_dataset example_config_grow)) \<noteq> []
   \<and> (\<exists>s'. update_step example_ops (example_env example_pair_frames)
               (example_dataset example_config_grow) 0 100 False = Inr s'
         \<and> height s' = 4 \<and> width s' = 4 \<and> prev_height s' = 4
         \<and> directions_unit_focal s' = 1 \<and> focal_length s' = 2
         \<and> heap s' 1 = scale_xy 2 (get_ray_directions example_ops 4 4 1)
         \<and> heap s' 0 = heap (example_dataset example_config_grow) 0
         \<and> rays_d s' = [scale_xy 2 (get_ray_directions example_ops 4 4 1),
                         scale_xy 2 (get_ray_directions example_ops 4 4 1)]
         \<and> length (rgb s') = 2
         \<and> trace s' = [RaysSet 2 2, ImagesLoaded 2 2, Debug 4 4, RaysSet 4 4, ImagesLoaded 4 4]
         \<and> update_step example_ops (example_env example_pair_frames) s' 0 100 False = Inr s')"
proof -
  note f = example_dataset_setup [OF example_config_grow_facts]
  note x = example_dataset_grow
  let ?s = "example_dataset example_config_grow"
  have id: "?s\<lparr>height := 2\<rparr> = ?s" using x(9) by simp
  note t = update_step_gate [where s = ?s and op = example_ops and ev = "example_env example_pair_frames"
      and e = 0 and w = False and ga = 0 and ha = 2 and e' = 0
      and w' = False and gb = 100 and hb = 4]
  from t [of 0 ?s] x(1,8) have a: "update_step example_ops (example_env example_pair_frames) ?s 0 0 False = Inr ?s"
    by (simp add: id)
  from t [of 0 ?s] x(2,8) f(9,10,11) obtain s' where
    s': "update_step example_ops (example_env example_pair_frames) ?s 0 100 False = Inr s'"
    by auto
  from t [of 100 s'] s' have i: "update_step example_ops (example_env example_pair_frames) s' 0 100 False = Inr s'"
    by simp
  from t [of 0 ?s] x(2,8) s' obtain wd a f normals depths where
    r: "py_index (widths ?s) (size_ind (resolution_milestones ?s) 100) = Inr wd"
      "py_index (directions_unit_focals ?s) (size_ind (resolution_milestones ?s) 100) = Inr a"
      "py_index (focal_lengths ?s) (size_ind (resolution_milestones ?s) 100) = Inr f"
      "height s' = 4" "width s' = wd" "prev_height s' = 4"
      "directions_unit_focal s' = a" "focal_length s' = f"
      "heap s' = (heap ?s)(a := scale_xy f (heap ?s a))"
      "rays_d s' = snd (get_rays example_ops (scale_xy f (heap ?s a)) (c2w ?s) (rays_noise_scale (cfg ?s)))"
      "load_images_loop (example_env example_pair_frames) (cfg ?s) wd 4 (image_paths (cfg ?s)) ([], [], [], [])
                = Inr (rgb s', mask_t s', normals, depths)"
      "trace s' = trace ?s @ [Debug 4 wd, RaysSet 4 wd, ImagesLoaded 4 wd]"
    by auto
  from r(1-3) have v: "wd = 4" "a = 1" "f = 2" by (simp_all add: x)
  from load_images_loop_Inr [OF r(11)] have n: "length (rgb s') = 2"
    by (simp add: example_dataset_poses(6) [OF f(1) example_config_grow_facts(1)])
  have rd: "rays_d s' = [scale_xy 2 (get_ray_directions example_ops 4 4 1),
                         scale_xy 2 (get_ray_directions example_ops 4 4 1)]"
    unfolding r(10) v x(6) using x(7)
    by (cases "c2w ?s"; cases "tl (c2w ?s)") (auto simp: example_ops_def)
  have "height s' = 4 \<and> width s' = 4 \<and> prev_height s' = 4
         \<and> directions_unit_focal s' = 1 \<and> focal_length s' = 2
         \<and> heap s' 1 = scale_xy 2 (get_ray_directions example_ops 4 4 1)
         \<and> heap s' 0 = heap ?s 0
         \<and> rays_d s' = [scale_xy 2 (get_ray_directions example_ops 4 4 1),
                         scale_xy 2 (get_ray_directions example_ops 4 4 1)]
         \<and> length (rgb s') = 2
         \<and> trace s' = [RaysSet 2 2, ImagesLoaded 2 2, Debug 4 4, RaysSet 4 4, ImagesLoaded 4 4]"
    using r(4-9,12) rd n x(6) by (simp add: v x(10))
  with s' i a x(1,2,8) f(9,10,11) show ?thesis by auto
qed

subsection \<open>The tier that the hook selects\<close>






section \<open>The look-at basis\<close>









lemma normalize_eps_pos: "0 < normalize_eps"
  by (simp add: normalize_eps_def)


lemma F_normalize_zero: "F_normalize (0, 0, 0) = (0, 0, 0)"
  by (simp add: F_normalize_def Let_def)














subsection \<open>The camera straight above or below the origin\<close>

lemma example_top_load_transform:
  "load_transform (example_env example_top_frames) example_config_unit (transform_fp example_config_unit) =
     Inr (example_config_unit\<lparr>image_paths := [''/data/top_rgba.png'', ''/data/side_rgba.png''],
            default_elevation_degs := [90, 0], default_azimuth_degs := [0, 0],
            default_camera_distances := [1, 1]\<rparr>)"
  by (simp add: load_transform_def resolve_transform_fp_def example_env_def example_top_frames_def
      example_config_unit_def example_config_def default_config_def
      os_path_dirname_def os_path_join_def startswith_def py_index_def py_min_def Let_def)

text \<open>
  Claim C2 says that a pose whose forward direction is parallel to the up vector makes
  the construction fail with an error. With two frames, the first of elevation \<open>90\<close>
  degrees, \<open>setup\<close> returns a dataset with one matrix for each camera.
\<close>

theorem lookat_degenerate_counterexample:
  "setup_dataset example_ops (example_env example_top_frames) example_config_unit ''train''
     = Inr example_top_dataset
   \<and> elevation_degs example_top_dataset = [90, 0]
   \<and> length (c2w example_top_dataset) = 2"
proof -
  have r: "setup_resolution (example_config_unit\<lparr>image_paths := [''/data/top_rgba.png'', ''/data/side_rgba.png''],
            default_elevation_degs := [90, 0], default_azimuth_degs := [0, 0],
            default_camera_distances := [1, 1]\<rparr>) = Inr ([96], [96], [- 1], [])"
    by (simp add: setup_resolution_def as_list_def example_config_unit_def example_config_def
        default_config_def Let_def)
  have "\<exists>s. setup_dataset example_ops (example_env example_top_frames) example_config_unit ''train'' = Inr s"
    by (rule setup_dataset_success [OF example_top_load_transform r])
      (simp_all add: companions_exist_def example_env_def as_list_def example_config_unit_def
        example_config_def default_config_def)
  then have s: "setup_dataset example_ops (example_env example_top_frames) example_config_unit ''train''
     = Inr example_top_dataset"
    by (auto simp: example_top_dataset_def)
  from setup_dataset_fields [OF s] have
    f: "elevation_degs example_top_dataset = [90, 0]"
      "camera_positions example_top_dataset = compute_camera_positions [90, 0] [0, 0] [1, 1]"
      "compute_c2w (camera_positions example_top_dataset) = Inr (c2w example_top_dataset)"
    unfolding example_top_load_transform by auto
  from compute_c2w_Inr(2) [OF f(3)] have "length (c2w example_top_dataset) = 2"
    by (simp add: f(2) compute_camera_positions_length)
  with s f(1) show ?thesis by simp
qed

text \<open>
  Claim C2, amended. The construction of the look-at basis has no failure that depends
  on a pose. \<open>F.normalize\<close> divides by the larger of the norm and \<open>eps\<close>, a positive
  number, whatever the vector. For any elevations, azimuths and distances, those of a
  camera straight above or below the origin included, the construction returns one
  matrix for each camera unless there are exactly three cameras, and \<open>RuntimeError\<close> with
  exactly three cameras is its only error. \<open>setup\<close> returns a dataset whenever the
  manifest loads, the resolution lists pass their assertions, the first height is not
  zero, the image files exist and the number of cameras is not three.
\<close>

theorem lookat_degenerate_no_error:
  "0 < max (vnorm v) normalize_eps
   \<and> F_normalize v = vscale (max (vnorm v) normalize_eps) v
   \<and> (length els = length ds \<and> length azs = length ds \<and> length ds \<noteq> 3 \<longrightarrow>
        (\<exists>m. compute_c2w (compute_camera_positions els azs ds) = Inr m \<and> length m = length ds))
   \<and> (compute_c2w ps = Inl err \<longrightarrow> err = RuntimeError \<and> length ps = 3)
   \<and> (load_transform ev c0 (transform_fp c0) = Inr c \<and> setup_resolution c = Inr r
        \<and> hd (as_list (cfg_height c)) \<noteq> 0 \<and> companions_exist ev c
        \<and> length (default_camera_distances c) \<noteq> 3 \<longrightarrow>
        (\<exists>s. setup_dataset op ev c0 split = Inr s
           \<and> elevation_degs s = default_elevation_degs c
           \<and> length (c2w s) = length (default_elevation_degs c)))"
proof (intro conjI impI)
  show "0 < max (vnorm v) normalize_eps"
    using normalize_eps_pos by (simp add: max_def)
  show "F_normalize v = vscale (max (vnorm v) normalize_eps) v"
    by (cases v) (simp add: F_normalize_def vscale_def Let_def)
next
  assume a: "length els = length ds \<and> length azs = length ds \<and> length ds \<noteq> 3"
  then have "length (compute_camera_positions els azs ds) \<noteq> 3"
    by (simp add: compute_camera_positions_length)
  from compute_c2w_rows [OF this] a
  show "\<exists>m. compute_c2w (compute_camera_positions els azs ds) = Inr m \<and> length m = length ds"
    by (simp add: compute_camera_positions_length)
next
  assume e: "compute_c2w ps = Inl err"
  show "length ps = 3"
  proof (rule ccontr)
    assume "length ps \<noteq> 3"
    from compute_c2w_rows [OF this] e show False by simp
  qed
  from compute_c2w_three [OF this] e show "err = RuntimeError" by simp
next
  assume a: "load_transform ev c0 (transform_fp c0) = Inr c \<and> setup_resolution c = Inr r
        \<and> hd (as_list (cfg_height c)) \<noteq> 0 \<and> companions_exist ev c
        \<and> length (default_camera_distances c) \<noteq> 3"
  then have l: "load_transform ev c0 (transform_fp c0) = Inr c" by simp
  from a obtain s where s: "setup_dataset op ev c0 split = Inr s"
    using setup_dataset_success [of ev c0 c r op split] by blast
  from setup_dataset_fields [OF s] l have
    f: "elevation_degs s = default_elevation_degs c"
      "camera_positions s = compute_camera_positions (default_elevation_degs c)
          (default_azimuth_degs c) (default_camera_distances c)"
      "compute_c2w (camera_positions s) = Inr (c2w s)"
    by auto
  from load_transform_fields [OF l] have
    len: "length (default_elevation_degs c) = length (default_camera_distances c)"
      "length (default_azimuth_degs c) = length (default_camera_distances c)"
    by simp_all
  from compute_c2w_Inr(2) [OF f(3)] have "length (c2w s) = length (default_elevation_degs c)"
    by (simp add: f(2) len compute_camera_positions_length)
  with s f(1) show "\<exists>s. setup_dataset op ev c0 split = Inr s
           \<and> elevation_degs s = default_elevation_degs c
           \<and> length (c2w s) = length (default_elevation_degs c)"
    by blast
qed

theorem lookat_degenerate_no_error_witness:
  "length [90, - 90 :: real] = length [1, 1 :: real] \<and> length [0, 0 :: real] = length [1, 1 :: real]
   \<and> length [1, 1 :: real] \<noteq> 3
   \<and> (\<exists>m. compute_c2w (compute_camera_positions [90, - 90] [0, 0] [1, 1]) = Inr m \<and> length m = 2)
   \<and> compute_c2w [(1, 0, 0), (0, 1, 0), (0, 0, 1)] = Inl RuntimeError
   \<and> length [(1, 0, 0) :: vec3, (0, 1, 0), (0, 0, 1)] = 3
   \<and> load_transform (example_env example_top_frames) example_config_unit (transform_fp example_config_unit)
       = Inr (example_config_unit\<lparr>image_paths := [''/data/top_rgba.png'', ''/data/side_rgba.png''],
            default_elevation_degs := [90, 0], default_azimuth_degs := [0, 0],
            default_camera_distances := [1, 1]\<rparr>)
   \<and> (\<exists>s. setup_dataset example_ops (example_env example_top_frames) example_config_unit ''valid'' = Inr s
         \<and> elevation_degs s = [90, 0] \<and> length (c2w s) = 2)"
proof -
  let ?c = "example_config_unit\<lparr>image_paths := [''/data/top_rgba.png'', ''/data/side_rgba.png''],
            default_elevation_degs := [90, 0], default_azimuth_degs := [0, 0],
            default_camera_distances := [1, 1]\<rparr>"
  have r: "setup_resolution ?c = Inr ([96], [96], [- 1], [])"
    by (simp add: setup_resolution_def as_list_def example_config_unit_def example_config_def
        default_config_def Let_def)
  have h: "hd (as_list (cfg_height ?c)) \<noteq> 0" "companions_exist (example_env example_top_frames) ?c"
    "length (default_camera_distances ?c) \<noteq> 3"
    by (simp_all add: companions_exist_def example_env_def as_list_def example_config_unit_def
        example_config_def default_config_def)
  have e: "compute_c2w [(1, 0, 0), (0, 1, 0), (0, 0, 1)] = Inl RuntimeError"
    by (simp add: compute_c2w_three)
  note t = lookat_degenerate_no_error [of "(0, 0, 0)" "[90, - 90]" "[1, 1]" "[0, 0]"
      "[(1, 0, 0), (0, 1, 0), (0, 0, 1)]" RuntimeError "example_env example_top_frames"
      example_config_unit ?c "([96], [96], [- 1], [])" example_ops "''valid''"]
  from t have a: "\<exists>m. compute_c2w (compute_camera_positions [90, - 90] [0, 0] [1, 1]) = Inr m \<and> length m = 2"
    by (simp add: numeral_2_eq_2)
  from t example_top_load_transform r h
  have b: "\<exists>s. setup_dataset example_ops (example_env example_top_frames) example_config_unit ''valid'' = Inr s
         \<and> elevation_degs s = [90, 0] \<and> length (c2w s) = 2"
    by (simp add: numeral_2_eq_2)
  from a e example_top_load_transform b show ?thesis by simp
qed
section \<open>Rays, images and the batch\<close>

lemma load_images_loop_lengths:
  "load_images_loop ev c w h paths (rgbs, masks, normals, depths) = Inr (rgbs', masks', normals', depths')
   \<Longrightarrow> length masks' = length masks + length paths"
proof (induction paths arbitrary: rgbs masks normals depths)
  case Nil
  then show ?case by simp
next
  case (Cons p ps)
  then show ?case
    by (force simp: Let_def split: if_splits sum.splits)
qed

lemma finish_setup_contents:
  assumes "finish_setup op ev s0 = Inr s"
  shows "\<exists>rgbs masks normals depths.
      load_images_loop ev (cfg s0) (width s0) (height s0) (image_paths (cfg s0)) ([], [], [], [])
        = Inr (rgbs, masks, normals, depths)
      \<and> rgb s = rgbs \<and> mask_t s = masks
      \<and> depth s = (if requires_depth (cfg s0) then Some depths else None)
      \<and> normal s = (if requires_normal (cfg s0) then Some normals else None)
      \<and> rays_o s = fst (get_rays op (heap s (directions_unit_focal s)) (c2w s) (rays_noise_scale (cfg s)))
      \<and> rays_d s = snd (get_rays op (heap s (directions_unit_focal s)) (c2w s) (rays_noise_scale (cfg s)))
      \<and> mvp_mtx s = get_mvp_matrix op (c2w s)
            (get_projection_matrix op (fovy s)
               (real_of_int (width s) / real_of_int (height s)) (1 / 10) 100)"
proof -
  from assms obtain s1 where s1: "set_rays op s0 = Inr s1"
    by (auto simp: finish_setup_def split: sum.splits)
  from set_rays_Inr [OF s1] have h: "height s0 \<noteq> 0" .
  note e1 = s1 [unfolded set_rays_eq [OF h, of op]]
  from assms s1 obtain s2 where s2: "load_images ev s1 = Inr s2" and s: "s = s2\<lparr>prev_height := height s2\<rparr>"
    by (auto simp: finish_setup_def split: sum.splits)
  from e1 have f1: "cfg s1 = cfg s0" "width s1 = width s0" "height s1 = height s0"
    "c2w s1 = c2w s0" "fovy s1 = fovy s0" "directions_unit_focal s1 = directions_unit_focal s0"
    "heap s1 (directions_unit_focal s0)
       = scale_xy (focal_length s0) (heap s0 (directions_unit_focal s0))"
    "rays_o s1 = fst (get_rays op (scale_xy (focal_length s0) (heap s0 (directions_unit_focal s0)))
                        (c2w s0) (rays_noise_scale (cfg s0)))"
    "rays_d s1 = snd (get_rays op (scale_xy (focal_length s0) (heap s0 (directions_unit_focal s0)))
                        (c2w s0) (rays_noise_scale (cfg s0)))"
    "mvp_mtx s1 = get_mvp_matrix op (c2w s0)
                        (get_projection_matrix op (fovy s0)
                           (real_of_int (width s0) / real_of_int (height s0)) (1 / 10) 100)"
    by auto
  from s2 obtain rgbs masks normals depths where
    l: "load_images_loop ev (cfg s1) (width s1) (height s1) (image_paths (cfg s1)) ([], [], [], [])
          = Inr (rgbs, masks, normals, depths)"
    by (auto simp: load_images_def split: sum.splits)
  from s2 l have e2: "s2 = s1\<lparr>rgb := rgbs, mask_t := masks,
            depth := (if requires_depth (cfg s1) then Some depths else None),
            normal := (if requires_normal (cfg s1) then Some normals else None),
            trace := trace s1 @ [ImagesLoaded (height s1) (width s1)]\<rparr>"
    by (auto simp: load_images_def split: if_splits)
  from l show ?thesis
    unfolding s e2 by (simp add: f1)
qed

lemma setup_dataset_contents:
  assumes "setup_dataset op ev c0 split = Inr s"
  shows "\<exists>c rgbs masks normals depths.
      load_transform ev c0 (transform_fp c0) = Inr c \<and> cfg s = c
      \<and> load_images_loop ev c (width s) (height s) (image_paths c) ([], [], [], [])
        = Inr (rgbs, masks, normals, depths)
      \<and> rgb s = rgbs \<and> mask_t s = masks
      \<and> depth s = (if requires_depth c then Some depths else None)
      \<and> normal s = (if requires_normal c then Some normals else None)
      \<and> rays_o s = fst (get_rays op (heap s (directions_unit_focal s)) (c2w s) (rays_noise_scale c))
      \<and> rays_d s = snd (get_rays op (heap s (directions_unit_focal s)) (c2w s) (rays_noise_scale c))
      \<and> mvp_mtx s = get_mvp_matrix op (c2w s)
            (get_projection_matrix op (fovy s)
               (real_of_int (width s) / real_of_int (height s)) (1 / 10) 100)
      \<and> directions_unit_focal s = 0
      \<and> heap s 0 = scale_xy (focal_length s) (get_ray_directions op (heights s ! 0) (widths s ! 0) 1)
      \<and> focal_length s
          = (1 / 2) * real_of_int (heights s ! 0) / tan ((1 / 2) * (default_fovy_deg c * pi / 180))"
proof -
  from setup_dataset_Inr [OF assms] obtain c s0 where
    l: "load_transform ev c0 (transform_fp c0) = Inr c"
    and i: "initial_dataset op c split = Inr s0"
    and f: "finish_setup op ev s0 = Inr s"
    by blast
  from initial_dataset_Inr [OF i] obtain hs ws ms wn where
    r: "setup_resolution c = Inr (hs, ws, ms, wn)"
    and i': "cfg s0 = c" "heights s0 = hs" "widths s0 = ws" "directions_unit_focal s0 = 0"
      "focal_lengths s0 = map (\<lambda>h. (1 / 2) * real_of_int h / tan ((1 / 2) * fovy s0)) hs"
      "focal_length s0 = focal_lengths s0 ! 0"
      "fovy s0 = default_fovy_deg c * pi / 180"
      "\<forall>a<length hs. heap s0 a = get_ray_directions op (hs ! a) (ws ! a) 1"
    by blast
  from setup_resolution_Inr [OF r] have hne: "hs \<noteq> []" by blast
  then have h0: "heap s0 0 = get_ray_directions op (hs ! 0) (ws ! 0) 1" using i'(8) by simp
  from hne have l0: "0 < length hs" by simp
  have fl: "focal_length s0 = (1 / 2) * real_of_int (hs ! 0) / tan ((1 / 2) * (default_fovy_deg c * pi / 180))"
    unfolding i'(6) i'(5) i'(7) using l0 by (rule nth_map)
  note fs = finish_setup_Inr [OF f]
  from fs have g: "cfg s = c" "heights s = hs" "widths s = ws" "directions_unit_focal s = 0"
    "focal_length s = focal_length s0" "width s = width s0" "height s = height s0"
    "heap s 0 = scale_xy (focal_length s0) (heap s0 0)"
    by (simp_all add: i')
  from finish_setup_contents [OF f] obtain rgbs masks normals depths where
    k: "load_images_loop ev (cfg s0) (width s0) (height s0) (image_paths (cfg s0)) ([], [], [], [])
        = Inr (rgbs, masks, normals, depths)"
      "rgb s = rgbs" "mask_t s = masks"
      "depth s = (if requires_depth (cfg s0) then Some depths else None)"
      "normal s = (if requires_normal (cfg s0) then Some normals else None)"
      "rays_o s = fst (get_rays op (heap s (directions_unit_focal s)) (c2w s) (rays_noise_scale (cfg s)))"
      "rays_d s = snd (get_rays op (heap s (directions_unit_focal s)) (c2w s) (rays_noise_scale (cfg s)))"
      "mvp_mtx s = get_mvp_matrix op (c2w s)
            (get_projection_matrix op (fovy s)
               (real_of_int (width s) / real_of_int (height s)) (1 / 10) 100)"
    by blast
  have a: "load_images_loop ev c (width s) (height s) (image_paths c) ([], [], [], [])
        = Inr (rgbs, masks, normals, depths)"
    using k(1) by (simp only: g i')
  have b: "depth s = (if requires_depth c then Some depths else None)"
    "normal s = (if requires_normal c then Some normals else None)"
    using k(4,5) by (simp_all only: i')
  have d: "rays_o s = fst (get_rays op (heap s (directions_unit_focal s)) (c2w s) (rays_noise_scale c))"
    "rays_d s = snd (get_rays op (heap s (directions_unit_focal s)) (c2w s) (rays_noise_scale c))"
    using k(6,7) by (simp_all only: g)
  have e: "heap s 0 = scale_xy (focal_length s) (get_ray_directions op (heights s ! 0) (widths s ! 0) 1)"
    by (simp only: g h0)
  have fl': "focal_length s
          = (1 / 2) * real_of_int (heights s ! 0) / tan ((1 / 2) * (default_fovy_deg c * pi / 180))"
    by (simp only: g fl)
  from l g(1) a k(2,3) b d k(8) g(4) e fl' show ?thesis by blast
qed


lemma example_config_fov90_facts:
  "transform_fp example_config_fov90 = ''/data/transforms.json''"
  "setup_resolution example_config_fov90 = Inr ([4], [4], [- 1], [])"
  "hd (as_list (cfg_height example_config_fov90)) \<noteq> 0"
  by (simp_all add: setup_resolution_def as_list_def example_config_fov90_def example_config_def
      default_config_def Let_def)

lemma example_get_rays:
  "fst (get_rays example_ops dirs c n) = map (\<lambda>m. dirs) c"
  "snd (get_rays example_ops dirs c n) = map (\<lambda>m. dirs) c"
  "get_mvp_matrix example_ops c pr = map (\<lambda>m. pr) c"
  by (simp_all add: example_ops_def)

lemma example_grid_corner:
  "get_ray_directions example_ops 4 4 1 ! 0 ! 0 = (- 3 / 2, 3 / 2, - 1)"
  "scale_xy 2 (get_ray_directions example_ops 4 4 1) ! 0 ! 0 = (- 3 / 4, 3 / 4, - 1)"
  "scale_xy 2 (scale_xy 2 (get_ray_directions example_ops 4 4 1)) ! 0 ! 0 = (- 3 / 8, 3 / 8, - 1)"
  by (simp_all add: example_ops_def scale_xy_def)

text \<open>
  Claim C3 says that the cached unit-focal grid of a tier is left unchanged by
  \<open>set_rays\<close>. The code writes through a view of the cached tensor. With a manifest
  of two frames, one tier of \<open>4 \<times> 4\<close> pixels and a field of view of \<open>90\<close> degrees the
  focal length is \<open>2\<close>. The
  corner entry of the unit-focal grid is \<open>(-3/2, 3/2, -1)\<close>; after \<open>setup\<close> the cached
  grid holds \<open>(-3/4, 3/4, -1)\<close> there, which is also what the rays were built from, and
  a second run of \<open>set_rays\<close> at the same tier and focal length leaves
  \<open>(-3/8, 3/8, -1)\<close> in the cache and builds the rays from that.
\<close>

theorem unit_focal_cache_rescaled:
  "setup_dataset example_ops (example_env example_pair_frames) example_config_fov90 ''train''
     = Inr (example_dataset example_config_fov90)
   \<and> length (c2w (example_dataset example_config_fov90)) = 2
   \<and> directions_unit_focals (example_dataset example_config_fov90) = [0]
   \<and> directions_unit_focal (example_dataset example_config_fov90) = 0
   \<and> focal_length (example_dataset example_config_fov90) = 2
   \<and> get_ray_directions example_ops 4 4 1 ! 0 ! 0 = (- 3 / 2, 3 / 2, - 1)
   \<and> heap (example_dataset example_config_fov90) 0 ! 0 ! 0 = (- 3 / 4, 3 / 4, - 1)
   \<and> rays_d (example_dataset example_config_fov90) ! 0 ! 0 ! 0 = (- 3 / 4, 3 / 4, - 1)
   \<and> (\<exists>s'. set_rays example_ops (example_dataset example_config_fov90) = Inr s'
         \<and> focal_length s' = 2
         \<and> heap s' 0 ! 0 ! 0 = (- 3 / 8, 3 / 8, - 1)
         \<and> rays_d s' ! 0 ! 0 ! 0 = (- 3 / 8, 3 / 8, - 1))"
proof -
  let ?d = "example_dataset example_config_fov90"
  note f = example_dataset_setup [OF example_config_fov90_facts]
  note n = example_dataset_cameras [OF f(1) example_config_fov90_facts(1)]
  from setup_dataset_fields [OF f(1)] have a: "directions_unit_focals ?d = [0]"
    by (auto simp: f)
  from setup_dataset_contents [OF f(1)] have
    k: "directions_unit_focal ?d = 0"
      "heap ?d 0 = scale_xy (focal_length ?d) (get_ray_directions example_ops (heights ?d ! 0) (widths ?d ! 0) 1)"
      "rays_d ?d = snd (get_rays example_ops (heap ?d (directions_unit_focal ?d)) (c2w ?d)
                     (rays_noise_scale (cfg ?d)))"
    and fl: "focal_length ?d = (1 / 2) * real_of_int (heights ?d ! 0)
               / tan ((1 / 2) * (default_fovy_deg example_config_fov90 * pi / 180))"
    unfolding example_load_transform [OF example_config_fov90_facts(1)] by auto
  have "(1 / 2) * (default_fovy_deg example_config_fov90 * pi / 180) = pi / 4"
    by (simp add: example_config_fov90_def)
  with fl have f2: "focal_length ?d = 2" by (simp add: f tan_45)
  have h0: "heap ?d 0 = scale_xy 2 (get_ray_directions example_ops 4 4 1)"
    using k(2) by (simp add: f f2)
  have rd: "rays_d ?d ! 0 = heap ?d 0"
    using n(2) by (simp add: k(1,3) example_get_rays)
  have h: "height ?d \<noteq> 0" by (simp add: f)
  note e = set_rays_eq [OF h, of example_ops]
  have "\<exists>s'. set_rays example_ops ?d = Inr s'
         \<and> focal_length s' = 2
         \<and> heap s' 0 ! 0 ! 0 = (- 3 / 8, 3 / 8, - 1)
         \<and> rays_d s' ! 0 ! 0 ! 0 = (- 3 / 8, 3 / 8, - 1)"
    unfolding e using n(2) by (simp add: k(1) f2 h0 example_grid_corner example_get_rays)
  with f(1) n(2) a k(1) f2 show ?thesis
    by (simp add: rd h0 example_grid_corner)
qed


lemma gate_None:
  assumes "depth s = None"
  shows "ref_depth_entry s idx = Inr None" and "ref_normal_entry s idx = Inr None"
  using assms by (simp_all add: ref_depth_entry_def ref_normal_entry_def py_not_def)

lemma tensor_bool_multi:
  assumes "1 < numel t"
  shows "tensor_bool t = Inl RuntimeError"
proof -
  define xs where "xs = concat (concat (concat t))"
  from assms have "1 < length xs" by (simp add: numel_def xs_def)
  then obtain a b r where "xs = a # b # r"
    by (cases xs; cases "tl xs") auto
  then show ?thesis
    unfolding tensor_bool_def xs_def [symmetric] by simp
qed

lemma gate_multi:
  assumes "depth s = Some t" "1 < numel t"
  shows "ref_depth_entry s idx = Inl RuntimeError" and "ref_normal_entry s idx = Inl RuntimeError"
  using assms
  by (simp_all add: ref_depth_entry_def ref_normal_entry_def py_not_def tensor_bool_multi)

lemma collate_Inr:
  assumes "collate s idx rc = Inr b"
  shows "ref_depth_entry s idx = Inr (batch_ref_depth b)"
    and "ref_normal_entry s idx = Inr (batch_ref_normal b)"
proof -
  from assms obtain ro where a1: "tensor_index (rays_o s) idx = Inr ro"
    by (cases "tensor_index (rays_o s) idx") (simp_all add: collate_def)
  from assms a1 obtain rd where a2: "tensor_index (rays_d s) idx = Inr rd"
    by (cases "tensor_index (rays_d s) idx") (simp_all add: collate_def)
  from assms a1 a2 obtain mvp where a3: "tensor_index (mvp_mtx s) idx = Inr mvp"
    by (cases "tensor_index (mvp_mtx s) idx") (simp_all add: collate_def)
  from assms a1 a2 a3 obtain cp where a4: "pos_index (squeeze0 (camera_positions s)) idx = Inr cp"
    by (cases "pos_index (squeeze0 (camera_positions s)) idx") (simp_all add: collate_def)
  from assms a1 a2 a3 a4 obtain el where a5: "tensor_index (elevation_degs s) idx = Inr el"
    by (cases "tensor_index (elevation_degs s) idx") (simp_all add: collate_def)
  from assms a1 a2 a3 a4 a5 obtain az where a6: "tensor_index (azimuth_degs s) idx = Inr az"
    by (cases "tensor_index (azimuth_degs s) idx") (simp_all add: collate_def)
  from assms a1 a2 a3 a4 a5 a6 obtain cd where a7: "tensor_index (camera_distances s) idx = Inr cd"
    by (cases "tensor_index (camera_distances s) idx") (simp_all add: collate_def)
  from assms a1 a2 a3 a4 a5 a6 a7 obtain im where a8: "tensor_index (rgb s) idx = Inr im"
    by (cases "tensor_index (rgb s) idx") (simp_all add: collate_def)
  from assms a1 a2 a3 a4 a5 a6 a7 a8 obtain rdepth where a9: "ref_depth_entry s idx = Inr rdepth"
    by (cases "ref_depth_entry s idx") (simp_all add: collate_def)
  from assms a1 a2 a3 a4 a5 a6 a7 a8 a9 obtain rnormal where a10: "ref_normal_entry s idx = Inr rnormal"
    by (cases "ref_normal_entry s idx") (simp_all add: collate_def)
  from assms a1 a2 a3 a4 a5 a6 a7 a8 a9 a10 obtain mk where a11: "tensor_index (mask_t s) idx = Inr mk"
    by (cases "tensor_index (mask_t s) idx") (simp_all add: collate_def)
  from assms a1 a2 a3 a4 a5 a6 a7 a8 a9 a10 a11
  have "batch_ref_depth b = rdepth \<and> batch_ref_normal b = rnormal"
    by (auto simp: collate_def)
  with a9 a10 show "ref_depth_entry s idx = Inr (batch_ref_depth b)"
    and "ref_normal_entry s idx = Inr (batch_ref_normal b)" by simp_all
qed

lemma collate_gate_error:
  assumes "ref_depth_entry s idx = Inl e"
  shows "isl (collate s idx rc)"
proof (rule ccontr)
  assume "\<not> isl (collate s idx rc)"
  then obtain b where "collate s idx rc = Inr b" by (cases "collate s idx rc") simp_all
  from collate_Inr(1) [OF this] assms show False by simp
qed

lemma collate_success:
  assumes "idx < length (rays_o s)" "idx < length (rays_d s)" "idx < length (mvp_mtx s)"
    and "idx < length (camera_positions s)" "1 < length (camera_positions s)"
    and "idx < length (elevation_degs s)" "idx < length (azimuth_degs s)"
    and "idx < length (camera_distances s)" "idx < length (rgb s)" "idx < length (mask_t s)"
    and "depth s = None"
  shows "\<exists>b. collate s idx rc = Inr b"
proof -
  from assms(5) obtain p q r where "camera_positions s = p # q # r"
    by (cases "camera_positions s"; cases "tl (camera_positions s)") auto
  then have sq: "squeeze0 (camera_positions s) = PosRows (camera_positions s)"
    by (simp add: squeeze0_def)
  have a4: "pos_index (squeeze0 (camera_positions s)) idx = Inr (PosRows [camera_positions s ! idx])"
    unfolding sq using assms(4) by (simp add: pos_index_def)
  have a: "tensor_index (rays_o s) idx = Inr [rays_o s ! idx]"
    "tensor_index (rays_d s) idx = Inr [rays_d s ! idx]"
    "tensor_index (mvp_mtx s) idx = Inr [mvp_mtx s ! idx]"
    "tensor_index (elevation_degs s) idx = Inr [elevation_degs s ! idx]"
    "tensor_index (azimuth_degs s) idx = Inr [azimuth_degs s ! idx]"
    "tensor_index (camera_distances s) idx = Inr [camera_distances s ! idx]"
    "tensor_index (rgb s) idx = Inr [rgb s ! idx]"
    "tensor_index (mask_t s) idx = Inr [mask_t s ! idx]"
    using assms by (simp_all add: tensor_index_def)
  note g = gate_None [OF assms(11), of idx]
  show ?thesis
    unfolding collate_def a a4 g by simp
qed

lemma setup_dataset_optional:
  assumes "setup_dataset op ev c0 split = Inr s"
  shows "(depth s = None) = (\<not> requires_depth c0)"
    and "(normal s = None) = (\<not> requires_normal c0)"
proof -
  from setup_dataset_Inr [OF assms] obtain c s0 where
    l: "load_transform ev c0 (transform_fp c0) = Inr c"
    and i: "initial_dataset op c split = Inr s0"
    and f: "finish_setup op ev s0 = Inr s"
    by blast
  from initial_dataset_Inr [OF i] have c: "cfg s0 = c" by (elim exE conjE)
  from finish_setup_Inr [OF f] have
    o: "(depth s = None) = (\<not> requires_depth (cfg s0))"
      "(normal s = None) = (\<not> requires_normal (cfg s0))"
    by simp_all
  from load_transform_fields [OF l] have r: "requires_depth c = requires_depth c0"
    "requires_normal c = requires_normal c0" by simp_all
  show "(depth s = None) = (\<not> requires_depth c0)"
    and "(normal s = None) = (\<not> requires_normal c0)"
    unfolding o c r by simp_all
qed

text \<open>
  Claim C10. Both \<open>ref_depth\<close> and \<open>ref_normal\<close> of the batch are gated on
  \<open>self.depth\<close>. For a dataset set up without \<open>requires_depth\<close> the depth attribute is
  \<open>None\<close> and both entries are \<open>None\<close>, also when \<open>requires_normal\<close> is set and the
  normals were loaded. For a dataset set up with \<open>requires_depth\<close> the depth attribute
  is a tensor; when it has more than one element the gate raises \<open>RuntimeError\<close> and
  \<open>collate\<close> returns no batch.
\<close>

theorem collate_depth_gate:
  "(setup_dataset op ev c0 split = Inr s \<and> \<not> requires_depth c0 \<longrightarrow>
      depth s = None \<and> (requires_normal c0 \<longrightarrow> normal s \<noteq> None)
      \<and> ref_depth_entry s idx = Inr None \<and> ref_normal_entry s idx = Inr None
      \<and> (\<forall>b. collate s idx rc = Inr b \<longrightarrow> batch_ref_depth b = None \<and> batch_ref_normal b = None))
   \<and> (setup_dataset op ev c1 split = Inr s1 \<and> requires_depth c1 \<longrightarrow>
      (\<exists>t. depth s1 = Some t)
      \<and> (\<forall>t. depth s1 = Some t \<and> 1 < numel t \<longrightarrow>
            ref_depth_entry s1 idx = Inl RuntimeError
            \<and> ref_normal_entry s1 idx = Inl RuntimeError
            \<and> isl (collate s1 idx rc)))"
proof -
  have A: "depth s = None \<and> (requires_normal c0 \<longrightarrow> normal s \<noteq> None)
      \<and> ref_depth_entry s idx = Inr None \<and> ref_normal_entry s idx = Inr None
      \<and> (\<forall>b. collate s idx rc = Inr b \<longrightarrow> batch_ref_depth b = None \<and> batch_ref_normal b = None)"
    if h: "setup_dataset op ev c0 split = Inr s" "\<not> requires_depth c0"
  proof -
    note o = setup_dataset_optional [OF h(1)]
    from o(1) h(2) have d: "depth s = None" by simp
    from o(2) have n: "requires_normal c0 \<longrightarrow> normal s \<noteq> None" by simp
    note g = gate_None [OF d, of idx]
    have c: "batch_ref_depth b = None \<and> batch_ref_normal b = None"
      if b: "collate s idx rc = Inr b" for b
      using collate_Inr [OF b] g by simp
    from d n g c show ?thesis by blast
  qed
  have B: "(\<exists>t. depth s1 = Some t)
      \<and> (\<forall>t. depth s1 = Some t \<and> 1 < numel t \<longrightarrow>
            ref_depth_entry s1 idx = Inl RuntimeError
            \<and> ref_normal_entry s1 idx = Inl RuntimeError
            \<and> isl (collate s1 idx rc))"
    if h: "setup_dataset op ev c1 split = Inr s1" "requires_depth c1"
  proof -
    from setup_dataset_optional(1) [OF h(1)] h(2) have "depth s1 \<noteq> None" by simp
    then have e: "\<exists>t. depth s1 = Some t" by auto
    have m: "ref_depth_entry s1 idx = Inl RuntimeError
            \<and> ref_normal_entry s1 idx = Inl RuntimeError
            \<and> isl (collate s1 idx rc)"
      if t: "depth s1 = Some t" "1 < numel t" for t
      using gate_multi [OF t, of idx] collate_gate_error [of s1 idx RuntimeError rc] by simp
    from e m show ?thesis by blast
  qed
  from A B show ?thesis by blast
qed


lemma example_config_normal_facts:
  "transform_fp example_config_normal = ''/data/transforms.json''"
  "setup_resolution example_config_normal = Inr ([2], [2], [- 1], [])"
  "hd (as_list (cfg_height example_config_normal)) \<noteq> 0"
  by (simp_all add: setup_resolution_def as_list_def example_config_normal_def example_config_def
      default_config_def Let_def)

lemma example_config_depth_facts:
  "transform_fp example_config_depth = ''/data/transforms.json''"
  "setup_resolution example_config_depth = Inr ([2], [2], [- 1], [])"
  "hd (as_list (cfg_height example_config_depth)) \<noteq> 0"
  by (simp_all add: setup_resolution_def as_list_def example_config_depth_def example_config_def
      default_config_def Let_def)

lemma example_loop_depth:
  assumes "requires_depth c"
  shows "\<exists>rgbs masks normals.
     load_images_loop (example_env fr) c 2 2 [p1, p2] ([], [], [], [])
       = Inr (rgbs, masks, normals, replicate 2 (replicate 2 (replicate 2 [1])))"
  using assms
  by (cases "requires_normal c")
    (simp_all add: load_companion_def example_env_def Let_def numeral_3_eq_3 numeral_2_eq_2)

lemma example_dataset_batch_lengths:
  assumes s: "setup_dataset example_ops (example_env example_pair_frames) c0 ''train'' = Inr (example_dataset c0)"
    and fp: "transform_fp c0 = ''/data/transforms.json''"
  shows "length (rays_o (example_dataset c0)) = 2" "length (rays_d (example_dataset c0)) = 2"
    "length (mvp_mtx (example_dataset c0)) = 2" "length (rgb (example_dataset c0)) = 2"
    "length (mask_t (example_dataset c0)) = 2"
proof -
  let ?d = "example_dataset c0"
  note n = example_dataset_cameras [OF s fp]
  note p = example_dataset_poses [OF s fp]
  from setup_dataset_contents [OF s] obtain c rgbs masks normals depths where
    k: "cfg ?d = c"
      "load_images_loop (example_env example_pair_frames) c (width ?d) (height ?d) (image_paths c)
         ([], [], [], []) = Inr (rgbs, masks, normals, depths)"
      "rgb ?d = rgbs" "mask_t ?d = masks"
      "rays_o ?d = fst (get_rays example_ops (heap ?d (directions_unit_focal ?d)) (c2w ?d)
                     (rays_noise_scale c))"
      "rays_d ?d = snd (get_rays example_ops (heap ?d (directions_unit_focal ?d)) (c2w ?d)
                     (rays_noise_scale c))"
      "mvp_mtx ?d = get_mvp_matrix example_ops (c2w ?d)
            (get_projection_matrix example_ops (fovy ?d)
               (real_of_int (width ?d) / real_of_int (height ?d)) (1 / 10) 100)"
    by (elim exE conjE)
  from k(5,6,7) n(2) show "length (rays_o ?d) = 2" "length (rays_d ?d) = 2" "length (mvp_mtx ?d) = 2"
    by (simp_all add: example_get_rays)
  from p(6) k(1) have ip: "length (image_paths c) = 2" by simp
  from load_images_loop_Inr [OF k(2)] ip show "length (rgb ?d) = 2" by (simp add: k(3))
  from load_images_loop_lengths [OF k(2)] ip show "length (mask_t ?d) = 2" by (simp add: k(4))
qed

theorem collate_depth_gate_witness:
  "setup_dataset example_ops (example_env example_pair_frames) example_config_normal ''train''
     = Inr (example_dataset example_config_normal)
   \<and> length (camera_positions (example_dataset example_config_normal)) = 2
   \<and> \<not> requires_depth example_config_normal \<and> requires_normal example_config_normal
   \<and> normal (example_dataset example_config_normal) \<noteq> None
   \<and> (\<exists>b. collate (example_dataset example_config_normal) 0 () = Inr b
         \<and> batch_ref_depth b = None \<and> batch_ref_normal b = None)
   \<and> setup_dataset example_ops (example_env example_pair_frames) example_config_depth ''train''
     = Inr (example_dataset example_config_depth)
   \<and> requires_depth example_config_depth
   \<and> (\<exists>t. depth (example_dataset example_config_depth) = Some t \<and> 1 < numel t)
   \<and> ref_depth_entry (example_dataset example_config_depth) 0 = Inl RuntimeError
   \<and> isl (collate (example_dataset example_config_depth) 0 ())"
proof -
  let ?n = "example_dataset example_config_normal"
  let ?d = "example_dataset example_config_depth"
  note fn = example_dataset_setup [OF example_config_normal_facts]
  note fd = example_dataset_setup [OF example_config_depth_facts]
  have q: "\<not> requires_depth example_config_normal" "requires_normal example_config_normal"
    "requires_depth example_config_depth"
    by (simp_all add: example_config_normal_def example_config_depth_def example_config_def
        default_config_def)
  note t = collate_depth_gate [of example_ops "example_env example_pair_frames" example_config_normal
      "''train''" ?n 0 "()" example_config_depth ?d]
  from t fn(1) q have dn: "depth ?n = None" and nn: "normal ?n \<noteq> None" by simp_all
  note pn = example_dataset_poses [OF fn(1) example_config_normal_facts(1)]
  note cn = example_dataset_cameras [OF fn(1) example_config_normal_facts(1)]
  note ln = example_dataset_batch_lengths [OF fn(1) example_config_normal_facts(1)]
  have "\<exists>b. collate ?n 0 () = Inr b"
    by (rule collate_success) (simp_all add: pn cn ln dn)
  then obtain b where b: "collate ?n 0 () = Inr b" by blast
  with t fn(1) q have bn: "batch_ref_depth b = None \<and> batch_ref_normal b = None" by simp
  note pd = example_dataset_poses [OF fd(1) example_config_depth_facts(1)]
  from setup_dataset_contents [OF fd(1)] obtain c rgbs masks normals depths where
    k: "cfg ?d = c"
      "load_images_loop (example_env example_pair_frames) c (width ?d) (height ?d) (image_paths c)
         ([], [], [], []) = Inr (rgbs, masks, normals, depths)"
      "depth ?d = (if requires_depth c then Some depths else None)"
    by (elim exE conjE)
  from pd(4) k(1) q(3) have rc: "requires_depth c" by simp
  from example_loop_depth [OF rc, of example_pair_frames "''/data/a_rgba.png''" "''/data/b_rgba.png''"]
    k(2) pd(6) k(1)
  have "depths = replicate 2 (replicate 2 (replicate 2 [1]))"
    by (auto simp: fd)
  with k(3) rc have dd: "depth ?d = Some (replicate 2 (replicate 2 (replicate 2 [1])))" by simp
  have nm: "1 < numel (replicate 2 (replicate 2 (replicate 2 [1 :: real])))"
    by (simp add: numel_def numeral_2_eq_2)
  from t fd(1) q(3) dd nm have "ref_depth_entry ?d 0 = Inl RuntimeError \<and> isl (collate ?d 0 ())"
    by simp
  with fn(1) fd(1) cn(1) q nn b bn dd nm show ?thesis by auto
qed

end
